theory Spec2Isabelle
  imports Main "HOL-Library.Word" "HOL-Library.Monad_Syntax"
begin

section \<open>The OBEX client session (obexd/client/session.c)\<close>

text \<open>
  The session manager is event-driven C: objects live on the heap and are shared by
  pointer, the GLib main loop runs deferred (idle) callbacks, and other modules of the
  client (transfer.c, agent.c, the drivers, the transport) are reached through calls
  whose bodies are not part of session.c.  The embedding keeps that structure:
  \<^item> a session object is a record, stored in a heap that maps addresses to objects;
    an access to an address that holds no object (a freed session) has no defined
    behaviour in C and is the value \<open>None\<close> here;
  \<^item> every call into another module appends an event to a trace; what such a call
    returns is a parameter (a field of \<open>collab\<close>, or an argument of the function that
    makes the call);
  \<^item> \<open>g_idle_add\<close> appends an idle source to the world's idle queue, and an
    outstanding agent request is kept in the world until its reply is delivered.
\<close>

type_synonym ptr = nat

datatype gerror = GError (gerr_code: int) (gerr_message: string)

text \<open>The values of errno.h (Linux) that the two files return, negated.\<close>

definition EIO :: int where "EIO = 5"
definition ENOMEM :: int where "ENOMEM = 12"
definition EINVAL :: int where "EINVAL = 22"
definition EISCONN :: int where "EISCONN = 106"
definition ENOTCONN :: int where "ENOTCONN = 107"
definition EALREADY :: int where "EALREADY = 114"
definition ECANCELED :: int where "ECANCELED = 125"

text \<open>The response code of a successful OBEX request (gobex.h).\<close>

definition G_OBEX_RSP_SUCCESS :: "8 word" where "G_OBEX_RSP_SUCCESS = 0x20"

text \<open>
  \<open>struct callback_data\<close>, \<open>struct session_callback\<close> and \<open>struct pending_data\<close>.
  A \<open>session_callback_t\<close> function pointer of a caller is a number; the only values of
  \<open>pending_data.cb\<close> that session.c ever stores are its own \<open>session_prepare_get\<close>
  and \<open>session_prepare_put\<close>.
\<close>

record callback_data =
  cd_session :: ptr
  cd_func :: nat
  cd_data :: nat

record session_callback =
  sc_func :: nat
  sc_data :: nat

datatype prepare = Session_prepare_get | Session_prepare_put

record pending_data =
  pd_cb :: prepare
  pd_session :: ptr
  pd_transfer :: ptr

record obc_agent =
  agent_name :: string
  agent_path :: string

text \<open>
  \<open>struct obc_driver\<close> (driver.h): the service name, the service UUID, the optional
  OBEX target header, and whether the \<open>probe\<close> and \<open>remove\<close> hooks are set.
\<close>

record obc_driver =
  drv_service :: "string option"
  drv_uuid :: string
  drv_target :: "8 word list option"
  drv_probe :: bool
  drv_remove :: bool

text \<open>
  \<open>struct obc_session\<close>.  \<open>transport\<close> is the name of the \<open>struct obc_transport\<close> the
  session points to; \<open>conn\<close> says whether the D-Bus connection pointer is set; the
  unused \<open>msg\<close> field is left out.  \<open>refcount\<close> is a \<open>gint\<close>: no claim reaches its
  wrap-around, so it is an \<open>int\<close>.
\<close>

record obc_session =
  id' :: nat
  refcount :: int
  source :: "string option"
  destination :: "string option"
  channel :: "8 word"
  transport :: "string option"
  driver :: obc_driver
  path :: "string option"
  conn :: bool
  obex :: "ptr option"
  agent :: "obc_agent option"
  callback :: "session_callback option"
  owner :: "string option"
  watch :: nat
  pending :: "ptr list"

datatype idle_source =
    Idle_session_request_proceed pending_data
  | Idle_connection_complete callback_data

text \<open>The calls that leave session.c, in the order they are made.\<close>

datatype event =
    Ev_callback nat ptr "gerror option" nat
  | Ev_transport_connect "string option" "string option" string "8 word" callback_data
  | Ev_transport_disconnect nat
  | Ev_obex_connect ptr "8 word list option" callback_data
  | Ev_obex_unref ptr
  | Ev_transfer_register "string option" "string option" "string option" "string option"
      "8 word list option" "ptr option"
  | Ev_transfer_unregister ptr
  | Ev_transfer_set_file ptr
  | Ev_transfer_set_buffer ptr string
  | Ev_transfer_set_name ptr string
  | Ev_transfer_get ptr
  | Ev_transfer_put ptr
  | Ev_agent_request obc_agent string
  | Ev_agent_notify_complete obc_agent string
  | Ev_agent_notify_error obc_agent string string
  | Ev_agent_notify_progress obc_agent string int
  | Ev_agent_release obc_agent
  | Ev_agent_free obc_agent
  | Ev_driver_remove ptr
  | Ev_dbus_unregister_interface "string option"
  | Ev_dbus_add_disconnect_watch string
  | Ev_dbus_remove_watch nat
  | Ev_dbus_connection_unref

text \<open>
  The state of the process as far as session.c sees it: the heap of session objects,
  the next address \<open>g_try_malloc0\<close> hands out, the static list \<open>sessions\<close>, the idle
  sources of the main loop, the agent requests that await a reply, and the trace.
\<close>

record world =
  heap :: "ptr \<Rightarrow> obc_session option"
  brk :: ptr
  sessions :: "ptr list"
  idle :: "idle_source list"
  requests :: "pending_data list"
  trace :: "event list"

text \<open>
  What the collaborators answer.  \<open>cb_body f s e d\<close> is the body of the caller's
  \<open>session_callback_t\<close> function \<open>f\<close> called with session \<open>s\<close>, error \<open>e\<close> and user
  data \<open>d\<close>: it may do anything to the world.  The other fields are the return values
  of transfer.c, agent.c and libc.
\<close>

record collab =
  cb_body :: "nat \<Rightarrow> ptr \<Rightarrow> gerror option \<Rightarrow> nat \<Rightarrow> world \<Rightarrow> world"
  transfer_get_path :: "ptr \<Rightarrow> string option"
  transfer_get_size :: "ptr \<Rightarrow> int"
  transfer_get_rc :: "ptr \<Rightarrow> int"
  transfer_put_rc :: "ptr \<Rightarrow> int"
  transfer_set_file_rc :: "ptr \<Rightarrow> int"
  agent_request_rc :: "obc_agent \<Rightarrow> string \<Rightarrow> int"
  strerror :: "int \<Rightarrow> string"

definition emit :: "event \<Rightarrow> world \<Rightarrow> world" where
  "emit e w = w\<lparr>trace := trace w @ [e]\<rparr>"

definition lookup :: "ptr \<Rightarrow> world \<Rightarrow> obc_session option" where
  "lookup s w = heap w s"

definition modify :: "ptr \<Rightarrow> (obc_session \<Rightarrow> obc_session) \<Rightarrow> world \<Rightarrow> world option" where
  "modify s f w =
     (case heap w s of
        None \<Rightarrow> None
      | Some se \<Rightarrow> Some (w\<lparr>heap := (heap w)(s \<mapsto> f se)\<rparr>))"

definition invoke :: "collab \<Rightarrow> nat \<Rightarrow> ptr \<Rightarrow> gerror option \<Rightarrow> nat \<Rightarrow> world \<Rightarrow> world" where
  "invoke c f s e d w = cb_body c f s e d (emit (Ev_callback f s e d) w)"

subsection \<open>Reference counting and destruction\<close>

definition obc_session_ref :: "ptr \<Rightarrow> world \<Rightarrow> world option" where
  "obc_session_ref s w = modify s (\<lambda>se. se\<lparr>refcount := refcount se + 1\<rparr>) w"

definition session_unregistered :: "ptr \<Rightarrow> world \<Rightarrow> world option" where
  "session_unregistered s w =
     (case lookup s w of
        None \<Rightarrow> None
      | Some se \<Rightarrow>
          do {
            let w1 = (if drv_remove (driver se) then emit (Ev_driver_remove s) w else w);
            w2 \<leftarrow> modify s (\<lambda>x. x\<lparr>path := None\<rparr>) w1;
            Some (emit (Ev_dbus_unregister_interface (path se)) w2)
          })"

text \<open>
  \<open>session_free\<close>, in two parts: the releases it makes first (the agent, the owner
  watch, the OBEX handle, the transport connection), then the retraction of the path,
  the D-Bus connection, the registry and the memory.
\<close>

definition session_free_releases :: "obc_session \<Rightarrow> world \<Rightarrow> world" where
  "session_free_releases se w =
     (let w1 = (case agent se of
                  None \<Rightarrow> w
                | Some a \<Rightarrow> emit (Ev_agent_free a) (emit (Ev_agent_release a) w));
          w2 = (if watch se \<noteq> 0 then emit (Ev_dbus_remove_watch (watch se)) w1 else w1);
          w3 = (case obex se of None \<Rightarrow> w2 | Some ob \<Rightarrow> emit (Ev_obex_unref ob) w2)
      in if id' se > 0 \<and> transport se \<noteq> None
         then emit (Ev_transport_disconnect (id' se)) w3 else w3)"

definition session_free :: "ptr \<Rightarrow> world \<Rightarrow> world option" where
  "session_free s w =
     (case lookup s w of
        None \<Rightarrow> None
      | Some se \<Rightarrow>
          do {
            let w4 = session_free_releases se w;
            w5 \<leftarrow> (if path se \<noteq> None then session_unregistered s w4 else Some w4);
            let w6 = (if conn se then emit Ev_dbus_connection_unref w5 else w5);
            Some (w6\<lparr>sessions := remove1 s (sessions w6), heap := (heap w6)(s := None)\<rparr>)
          })"

definition obc_session_unref :: "ptr \<Rightarrow> world \<Rightarrow> world option" where
  "obc_session_unref s w =
     (case lookup s w of
        None \<Rightarrow> None
      | Some se \<Rightarrow>
          do {
            w1 \<leftarrow> modify s (\<lambda>x. x\<lparr>refcount := refcount x - 1\<rparr>) w;
            if refcount se - 1 \<noteq> 0 then Some w1 else session_free s w1
          })"

subsection \<open>The transfer queue\<close>

definition obc_session_add_transfer :: "ptr \<Rightarrow> ptr \<Rightarrow> world \<Rightarrow> world option" where
  "obc_session_add_transfer s t w =
     do {
       w1 \<leftarrow> modify s (\<lambda>se. se\<lparr>pending := pending se @ [t]\<rparr>) w;
       obc_session_ref s w1
     }"

definition obc_session_remove_transfer :: "ptr \<Rightarrow> ptr \<Rightarrow> world \<Rightarrow> world option" where
  "obc_session_remove_transfer s t w =
     do {
       w1 \<leftarrow> modify s (\<lambda>se. se\<lparr>pending := remove1 t (pending se)\<rparr>) w;
       obc_session_unref s (emit (Ev_transfer_unregister t) w1)
     }"


subsection \<open>Authorisation and the progress of a transfer\<close>

text \<open>
  \<open>session_request\<close>: with no agent, or a transfer without a path, the continuation
  is deferred with \<open>g_idle_add\<close>; otherwise \<open>obc_agent_request\<close> is called, and
  when it accepts the call the request waits for the agent's reply.
\<close>

definition session_request ::
  "collab \<Rightarrow> ptr \<Rightarrow> prepare \<Rightarrow> ptr \<Rightarrow> world \<Rightarrow> (int \<times> world) option" where
  "session_request c s cb t w =
     (case lookup s w of
        None \<Rightarrow> None
      | Some se \<Rightarrow>
          (let pd = \<lparr>pd_cb = cb, pd_session = s, pd_transfer = t\<rparr>;
               deferred = Some (0, w\<lparr>idle := idle w @ [Idle_session_request_proceed pd]\<rparr>)
           in case agent se of
                None \<Rightarrow> deferred
              | Some a \<Rightarrow>
                  (case transfer_get_path c t of
                     None \<Rightarrow> deferred
                   | Some p \<Rightarrow>
                       (let w1 = emit (Ev_agent_request a p) w;
                            err = agent_request_rc c a p
                        in if err < 0 then Some (err, w1)
                           else Some (0, w1\<lparr>requests := requests w1 @ [pd]\<rparr>)))))"

definition session_terminate_transfer ::
  "collab \<Rightarrow> ptr \<Rightarrow> ptr \<Rightarrow> gerror option \<Rightarrow> world \<Rightarrow> world option" where
  "session_terminate_transfer c s t gerr w =
     (case lookup s w of
        None \<Rightarrow> None
      | Some se \<Rightarrow>
          (case callback se of
             Some cb \<Rightarrow>
               do {
                 w1 \<leftarrow> obc_session_ref s w;
                 let w2 = invoke c (sc_func cb) s gerr (sc_data cb) w1;
                 se2 \<leftarrow> lookup s w2;
                 w3 \<leftarrow> (if t \<in> set (pending se2)
                        then obc_session_remove_transfer s t w2 else Some w2);
                 obc_session_unref s w3
               }
           | None \<Rightarrow>
               do {
                 w1 \<leftarrow> obc_session_ref s w;
                 w2 \<leftarrow> obc_session_remove_transfer s t w1;
                 se2 \<leftarrow> lookup s w2;
                 w3 \<leftarrow> (case pending se2 of
                          [] \<Rightarrow> Some w2
                        | h # _ \<Rightarrow> map_option snd (session_request c s Session_prepare_put h w2));
                 obc_session_unref s w3
               }))"


definition session_notify_error ::
  "collab \<Rightarrow> ptr \<Rightarrow> ptr \<Rightarrow> gerror \<Rightarrow> world \<Rightarrow> world option" where
  "session_notify_error c s t err w =
     (case lookup s w of
        None \<Rightarrow> None
      | Some se \<Rightarrow>
          (let w1 = (case agent se of
                       None \<Rightarrow> w
                     | Some a \<Rightarrow>
                         (case transfer_get_path c t of
                            None \<Rightarrow> w
                          | Some p \<Rightarrow> emit (Ev_agent_notify_error a p (gerr_message err)) w))
           in session_terminate_transfer c s t (Some err) w1))"



text \<open>
  The character \<open>printf\<close> writes for a digit below 16, and the decimal digits of a
  number, for the \<open>%d\<close> of \<open>session_prepare_put\<close>.
\<close>

definition digit_char :: "nat \<Rightarrow> char" where
  "digit_char d = ''0123456789abcdef'' ! d"

fun decimal :: "nat \<Rightarrow> string" where
  "decimal n =
     (if n < 10 then [digit_char n]
      else decimal (n div 10) @ [digit_char (n mod 10)])"

definition session_prepare_get ::
  "collab \<Rightarrow> ptr \<Rightarrow> gerror option \<Rightarrow> ptr \<Rightarrow> world \<Rightarrow> world option" where
  "session_prepare_get c s err t w =
     (let w1 = emit (Ev_transfer_get t) w;
          ret = transfer_get_rc c t
      in if ret < 0
         then session_notify_error c s t (GError ret (strerror c (- ret))) w1
         else Some w1)"

definition session_prepare_put ::
  "collab \<Rightarrow> ptr \<Rightarrow> gerror option \<Rightarrow> ptr \<Rightarrow> world \<Rightarrow> world option" where
  "session_prepare_put c s err t w =
     (let w1 = emit (Ev_transfer_put t) w;
          ret = transfer_put_rc c t
      in if ret < 0
         then session_notify_error c s t
                (GError ret (strerror c (- ret) @ '' ('' @ decimal (nat (- ret)) @ '')'')) w1
         else Some w1)"

text \<open>The call \<open>pending->cb(session, NULL, transfer)\<close> through the stored pointer.\<close>

definition call_prepare ::
  "collab \<Rightarrow> prepare \<Rightarrow> ptr \<Rightarrow> gerror option \<Rightarrow> ptr \<Rightarrow> world \<Rightarrow> world option" where
  "call_prepare c cb s err t w =
     (case cb of
        Session_prepare_get \<Rightarrow> session_prepare_get c s err t w
      | Session_prepare_put \<Rightarrow> session_prepare_put c s err t w)"

definition session_request_proceed :: "collab \<Rightarrow> pending_data \<Rightarrow> world \<Rightarrow> world option" where
  "session_request_proceed c pd w =
     call_prepare c (pd_cb pd) (pd_session pd) None (pd_transfer pd) w"

text \<open>
  The agent's reply to \<open>Request\<close>: a D-Bus error (with its message), or the name the
  agent suggests for the transfer.  On an error \<open>session_request_reply\<close> logs the
  message, calls \<open>dbus_error_free(&derr)\<close>, and only then formats the \<open>GError\<close> from
  \<open>derr.message\<close>.  \<open>dbus_error_free\<close> releases the message and initialises the
  error again, which sets \<open>derr.message\<close> to NULL, and the \<open>%s\<close> of \<open>g_set_error\<close>
  prints a NULL string as \<open>(null)\<close> (glibc).  So the error that reaches the
  termination path carries the text \<open>(null)\<close>, whatever the agent has sent.
\<close>

datatype agent_reply = Reply_error string | Reply_name string

definition session_request_reply ::
  "collab \<Rightarrow> pending_data \<Rightarrow> agent_reply \<Rightarrow> world \<Rightarrow> world option" where
  "session_request_reply c pd reply w =
     (case reply of
        Reply_error msg \<Rightarrow>
          session_terminate_transfer c (pd_session pd) (pd_transfer pd)
            (Some (GError (- ECANCELED) ''(null)'')) w
      | Reply_name nm \<Rightarrow>
          (let w1 = (if length nm \<noteq> 0
                     then emit (Ev_transfer_set_name (pd_transfer pd) nm) w else w)
           in call_prepare c (pd_cb pd) (pd_session pd) None (pd_transfer pd) w1))"


subsection \<open>The four requests: get, send, pull, put\<close>

text \<open>
  Modelled from the spec: \<open>obc_agent_get_name\<close>, an accessor defined in agent.c
  and not in session.c.  The spec says that the current agent's name is attached to
  a new transfer "if any", so no agent gives no name.
  \<open>obc_session_get\<close> and \<open>obc_session_pull\<close> guard the call with a test of
  \<open>session->agent\<close>; \<open>obc_session_send\<close> and \<open>obc_session_put\<close> pass
  \<open>session->agent\<close> as it is, so the example runs of these two below are on
  sessions that have an agent.
\<close>

definition obc_agent_get_name :: "obc_agent option \<Rightarrow> string option" where
  "obc_agent_get_name a = map_option agent_name a"

text \<open>
  In each request \<open>reg\<close> is what \<open>obc_transfer_register\<close> returns: the handle of the
  new transfer, or \<open>None\<close> for NULL.  \<open>fn\<close> is the caller's completion function, or
  \<open>None\<close> for NULL.
\<close>

definition obc_session_get ::
  "collab \<Rightarrow> ptr \<Rightarrow> string option \<Rightarrow> string option \<Rightarrow> string option \<Rightarrow> 8 word list option \<Rightarrow>
   nat option \<Rightarrow> nat \<Rightarrow> ptr option \<Rightarrow> world \<Rightarrow> (int \<times> world) option" where
  "obc_session_get c s typ filename targetname apparam fn user_data reg w =
     (case lookup s w of
        None \<Rightarrow> None
      | Some se \<Rightarrow>
          if obex se = None then Some (- ENOTCONN, w)
          else
            (let params = apparam;
                 ag = (if agent se \<noteq> None then obc_agent_get_name (agent se) else None);
                 w1 = emit (Ev_transfer_register ag filename targetname typ params reg) w
             in case reg of
                  None \<Rightarrow> Some (- EIO, w1)
                | Some t \<Rightarrow>
                    do {
                      w2 \<leftarrow> (case fn of
                               None \<Rightarrow> Some w1
                             | Some f \<Rightarrow>
                                 modify s (\<lambda>x. x\<lparr>callback :=
                                   Some \<lparr>sc_func = f, sc_data = user_data\<rparr>\<rparr>) w1);
                      (err, w3) \<leftarrow> session_request c s Session_prepare_get t w2;
                      if err < 0 then Some (err, emit (Ev_transfer_unregister t) w3)
                      else do {
                        w4 \<leftarrow> obc_session_add_transfer s t w3;
                        Some (0, w4)
                      }
                    }))"

definition obc_session_send ::
  "collab \<Rightarrow> ptr \<Rightarrow> string option \<Rightarrow> string option \<Rightarrow> ptr option \<Rightarrow> world \<Rightarrow>
   (int \<times> world) option" where
  "obc_session_send c s filename targetname reg w =
     (case lookup s w of
        None \<Rightarrow> None
      | Some se \<Rightarrow>
          if obex se = None then Some (- ENOTCONN, w)
          else
            (let ag = obc_agent_get_name (agent se);
                 w1 = emit (Ev_transfer_register ag filename targetname None None reg) w
             in case reg of
                  None \<Rightarrow> Some (- EINVAL, w1)
                | Some t \<Rightarrow>
                    (let w2 = emit (Ev_transfer_set_file t) w1;
                         err = transfer_set_file_rc c t
                     in if err < 0 then Some (err, emit (Ev_transfer_unregister t) w2)
                        else if pending se \<noteq> []
                        then do {
                          w4 \<leftarrow> obc_session_add_transfer s t w2;
                          Some (0, w4)
                        }
                        else do {
                          (err2, w3) \<leftarrow> session_request c s Session_prepare_put t w2;
                          if err2 < 0 then Some (err2, emit (Ev_transfer_unregister t) w3)
                          else do {
                            w4 \<leftarrow> obc_session_add_transfer s t w3;
                            Some (0, w4)
                          }
                        })))"

definition obc_session_pull ::
  "collab \<Rightarrow> ptr \<Rightarrow> string option \<Rightarrow> string option \<Rightarrow> nat option \<Rightarrow> nat \<Rightarrow> ptr option \<Rightarrow>
   world \<Rightarrow> (int \<times> world) option" where
  "obc_session_pull c s typ filename fn user_data reg w =
     (case lookup s w of
        None \<Rightarrow> None
      | Some se \<Rightarrow>
          if obex se = None then Some (- ENOTCONN, w)
          else
            (let ag = (if agent se \<noteq> None then obc_agent_get_name (agent se) else None);
                 w1 = emit (Ev_transfer_register ag None filename typ None reg) w
             in case reg of
                  None \<Rightarrow> Some (- EIO, w1)
                | Some t \<Rightarrow>
                    do {
                      w2 \<leftarrow> (case fn of
                               None \<Rightarrow> Some w1
                             | Some f \<Rightarrow>
                                 modify s (\<lambda>x. x\<lparr>callback :=
                                   Some \<lparr>sc_func = f, sc_data = user_data\<rparr>\<rparr>) w1);
                      (err, w3) \<leftarrow> session_request c s Session_prepare_get t w2;
                      if err = 0 then do {
                        w4 \<leftarrow> obc_session_add_transfer s t w3;
                        Some (0, w4)
                      }
                      else Some (err, emit (Ev_transfer_unregister t) w3)
                    }))"

definition obc_session_put ::
  "collab \<Rightarrow> ptr \<Rightarrow> string \<Rightarrow> string option \<Rightarrow> ptr option \<Rightarrow> world \<Rightarrow> (int \<times> world) option" where
  "obc_session_put c s buf targetname reg w =
     (case lookup s w of
        None \<Rightarrow> None
      | Some se \<Rightarrow>
          if obex se = None then Some (- ENOTCONN, w)
          else if pending se \<noteq> [] then Some (- EISCONN, w)
          else
            (let ag = obc_agent_get_name (agent se);
                 w1 = emit (Ev_transfer_register ag None targetname None None reg) w
             in case reg of
                  None \<Rightarrow> Some (- EIO, w1)
                | Some t \<Rightarrow>
                    do {
                      let w2 = emit (Ev_transfer_set_buffer t buf) w1;
                      (err, w3) \<leftarrow> session_request c s Session_prepare_put t w2;
                      if err < 0 then Some (err, w3) else Some (0, w3)
                    }))"

subsection \<open>The main loop\<close>

text \<open>
  GLib runs the idle sources in the order they were added; each of the two idle
  functions of session.c returns FALSE, so a source runs once.  When the agent
  answers a request, the pending call is completed and \<open>session_request_reply\<close> runs.
\<close>

definition connection_complete :: "collab \<Rightarrow> callback_data \<Rightarrow> world \<Rightarrow> world option" where
  "connection_complete c cd w =
     obc_session_unref (cd_session cd)
       (invoke c (cd_func cd) (cd_session cd) None (cd_data cd) w)"

definition run_idle :: "collab \<Rightarrow> world \<Rightarrow> world option" where
  "run_idle c w =
     (case idle w of
        [] \<Rightarrow> Some w
      | i # rest \<Rightarrow>
          (case i of
             Idle_session_request_proceed pd \<Rightarrow> session_request_proceed c pd (w\<lparr>idle := rest\<rparr>)
           | Idle_connection_complete cd \<Rightarrow> connection_complete c cd (w\<lparr>idle := rest\<rparr>)))"

definition agent_replies ::
  "collab \<Rightarrow> pending_data \<Rightarrow> agent_reply \<Rightarrow> world \<Rightarrow> world option" where
  "agent_replies c pd reply w =
     (if pd \<in> set (requests w)
      then session_request_reply c pd reply (w\<lparr>requests := remove1 pd (requests w)\<rparr>)
      else Some w)"

subsection \<open>Shutdown\<close>

text \<open>
  The loop of \<open>obc_session_shutdown\<close> walks the nodes of the list as it was on entry
  (\<open>l = l->next\<close> is read before the node is removed).
\<close>

fun shutdown_loop :: "ptr \<Rightarrow> ptr list \<Rightarrow> world \<Rightarrow> world option" where
  "shutdown_loop s [] w = Some w"
| "shutdown_loop s (t # l) w =
     (case obc_session_remove_transfer s t w of
        None \<Rightarrow> None
      | Some w1 \<Rightarrow> shutdown_loop s l w1)"

definition obc_session_shutdown :: "ptr \<Rightarrow> world \<Rightarrow> world option" where
  "obc_session_shutdown s w =
     do {
       se \<leftarrow> lookup s w;
       w1 \<leftarrow> obc_session_ref s w;
       w2 \<leftarrow> shutdown_loop s (pending se) w1;
       se2 \<leftarrow> lookup s w2;
       w3 \<leftarrow> (if path se2 \<noteq> None then session_unregistered s w2 else Some w2);
       se3 \<leftarrow> lookup s w3;
       w4 \<leftarrow> (if id' se3 > 0 \<and> transport se3 \<noteq> None
              then modify s (\<lambda>x. x\<lparr>id' := 0\<rparr>) (emit (Ev_transport_disconnect (id' se3)) w3)
              else Some w3);
       obc_session_unref s w4
     }"


subsection \<open>The registry of sessions and their creation\<close>

text \<open>
  \<open>g_strcmp0\<close> (GLib) compares two strings that may be NULL: NULL sorts before any
  string and equals NULL; otherwise it is \<open>strcmp\<close>, on unsigned bytes.
\<close>

fun strcmp :: "string \<Rightarrow> string \<Rightarrow> int" where
  "strcmp [] [] = 0"
| "strcmp [] (y # ys) = - 1"
| "strcmp (x # xs) [] = 1"
| "strcmp (x # xs) (y # ys) =
     (if (of_char x :: nat) < of_char y then - 1
      else if (of_char y :: nat) < of_char x then 1
      else strcmp xs ys)"

definition g_strcmp0 :: "string option \<Rightarrow> string option \<Rightarrow> int" where
  "g_strcmp0 a b =
     (case a of
        None \<Rightarrow> (case b of None \<Rightarrow> 0 | Some y \<Rightarrow> - 1)
      | Some x \<Rightarrow> (case b of None \<Rightarrow> 1 | Some y \<Rightarrow> strcmp x y))"

text \<open>
  The body of the loop of \<open>session_find\<close>: each \<open>continue\<close> is a \<open>False\<close>, the
  \<open>return session\<close> is \<open>True\<close>.
\<close>

definition session_matches ::
  "obc_session \<Rightarrow> string option \<Rightarrow> string option \<Rightarrow> string option \<Rightarrow> 8 word \<Rightarrow>
   string option \<Rightarrow> bool" where
  "session_matches se src dst svc chan own =
     (if g_strcmp0 (destination se) dst \<noteq> 0 then False
      else if g_strcmp0 svc (drv_service (driver se)) \<noteq> 0 then False
      else if src \<noteq> None \<and> g_strcmp0 (source se) src \<noteq> 0 then False
      else if chan \<noteq> 0 \<and> channel se \<noteq> chan then False
      else if g_strcmp0 own (owner se) \<noteq> 0 then False
      else True)"

text \<open>
  The walk over the static list.  Every pointer in the list is a live session
  (\<open>session_free\<close> takes the session out of the list before it frees it); a pointer
  without an object is passed over.
\<close>

fun session_find_in ::
  "(ptr \<Rightarrow> obc_session option) \<Rightarrow> ptr list \<Rightarrow> string option \<Rightarrow> string option \<Rightarrow>
   string option \<Rightarrow> 8 word \<Rightarrow> string option \<Rightarrow> ptr option" where
  "session_find_in h [] src dst svc chan own = None"
| "session_find_in h (s # l) src dst svc chan own =
     (case h s of
        None \<Rightarrow> session_find_in h l src dst svc chan own
      | Some se \<Rightarrow>
          if session_matches se src dst svc chan own then Some s
          else session_find_in h l src dst svc chan own)"

definition session_find ::
  "world \<Rightarrow> string option \<Rightarrow> string option \<Rightarrow> string option \<Rightarrow> 8 word \<Rightarrow> string option \<Rightarrow>
   ptr option" where
  "session_find w src dst svc chan own =
     session_find_in (heap w) (sessions w) src dst svc chan own"

text \<open>
  \<open>session_connect\<close>.  \<open>alloc_ok\<close> says whether \<open>g_try_malloc0\<close> gave the callback
  closure; \<open>connect_id\<close> is what the transport's \<open>connect\<close> returns (0 on failure).
\<close>

definition session_connect ::
  "ptr \<Rightarrow> nat \<Rightarrow> nat \<Rightarrow> bool \<Rightarrow> nat \<Rightarrow> world \<Rightarrow> (int \<times> world) option" where
  "session_connect s fn user_data alloc_ok connect_id w =
     (case lookup s w of
        None \<Rightarrow> None
      | Some se \<Rightarrow>
          if \<not> alloc_ok then Some (- ENOMEM, w)
          else
            (let cd = \<lparr>cd_session = s, cd_func = fn, cd_data = user_data\<rparr>
             in do {
               w1 \<leftarrow> obc_session_ref s w;
               if obex se \<noteq> None
               then Some (0, w1\<lparr>idle := idle w1 @ [Idle_connection_complete cd]\<rparr>)
               else if id' se > 0 then Some (0, w1)
               else do {
                 let w2 = emit (Ev_transport_connect (source se) (destination se)
                                  (drv_uuid (driver se)) (channel se) cd) w1;
                 w3 \<leftarrow> modify s (\<lambda>x. x\<lparr>id' := connect_id\<rparr>) w2;
                 if connect_id = 0
                 then do { w4 \<leftarrow> obc_session_unref s w3; Some (- EINVAL, w4) }
                 else Some (0, w3)
               }
             }))"

text \<open>
  \<open>obc_session_set_owner\<close> on a session that exists; \<open>watch_id\<close> is what
  \<open>g_dbus_add_disconnect_watch\<close> returns.
\<close>

definition obc_session_set_owner :: "ptr \<Rightarrow> string \<Rightarrow> nat \<Rightarrow> world \<Rightarrow> (int \<times> world) option" where
  "obc_session_set_owner s nm watch_id w =
     (case lookup s w of
        None \<Rightarrow> None
      | Some se \<Rightarrow>
          do {
            let w1 = (if watch se \<noteq> 0 then emit (Ev_dbus_remove_watch (watch se)) w else w);
            w2 \<leftarrow> modify s (\<lambda>x. x\<lparr>watch := watch_id\<rparr>) (emit (Ev_dbus_add_disconnect_watch nm) w1);
            if watch_id = 0 then Some (- EINVAL, w2)
            else do {
              w3 \<leftarrow> modify s (\<lambda>x. x\<lparr>owner := Some nm\<rparr>) w2;
              Some (0, w3)
            }
          })"

text \<open>
  What the environment answers during \<open>obc_session_create\<close>: the transport and the
  driver that the lookups find, whether the session bus and the allocations are to be
  had, the watch id, and the id the transport's \<open>connect\<close> returns.
\<close>

record create_env =
  transport_found :: "string option"
  driver_found :: "obc_driver option"
  bus_ok :: bool
  session_alloc_ok :: bool
  watch_id :: nat
  callback_alloc_ok :: bool
  connect_id :: nat

definition create_proceed ::
  "ptr \<Rightarrow> nat \<Rightarrow> nat \<Rightarrow> create_env \<Rightarrow> world \<Rightarrow> (ptr option \<times> world) option" where
  "create_proceed s fn user_data env w =
     do {
       (rc, w1) \<leftarrow> session_connect s fn user_data (callback_alloc_ok env) (connect_id env) w;
       if rc < 0 then do { w2 \<leftarrow> obc_session_unref s w1; Some (None, w2) }
       else Some (Some s, w1)
     }"

definition obc_session_create ::
  "string option \<Rightarrow> string option \<Rightarrow> string option \<Rightarrow> 8 word \<Rightarrow> string option \<Rightarrow> nat \<Rightarrow> nat \<Rightarrow>
   create_env \<Rightarrow> world \<Rightarrow> (ptr option \<times> world) option" where
  "obc_session_create src dst svc chan own fn user_data env w =
     (if dst = None then Some (None, w)
      else
        (case session_find w src dst svc chan own of
           Some s \<Rightarrow> create_proceed s fn user_data env w
         | None \<Rightarrow>
             (case transport_found env of
                None \<Rightarrow> Some (None, w)
              | Some tr \<Rightarrow>
                  (case driver_found env of
                     None \<Rightarrow> Some (None, w)
                   | Some drv \<Rightarrow>
                       if \<not> bus_ok env then Some (None, w)
                       else if \<not> session_alloc_ok env then Some (None, w)
                       else
                         (let s = brk w;
                              se = \<lparr>id' = 0, refcount = 1, source = src, destination = dst,
                                    channel = chan, transport = Some tr, driver = drv,
                                    path = None, conn = True, obex = None, agent = None,
                                    callback = None, owner = None, watch = 0, pending = []\<rparr>;
                              w1 = w\<lparr>heap := (heap w)(s \<mapsto> se), brk := s + 1\<rparr>
                          in do {
                            w2 \<leftarrow> (case own of
                                     None \<Rightarrow> Some w1
                                   | Some nm \<Rightarrow>
                                       map_option snd
                                         (obc_session_set_owner s nm (watch_id env) w1));
                            create_proceed s fn user_data env w2
                          })))))"

subsection \<open>The transport's answer and the OBEX CONNECT handshake\<close>

definition connect_failed_message :: "8 word \<Rightarrow> string" where
  "connect_failed_message rsp_code =
     ''OBEX Connect failed with 0x'' @
       [digit_char (unat rsp_code div 16), digit_char (unat rsp_code mod 16)]"

text \<open>
  \<open>connect_cb\<close>: \<open>err\<close> is the transport error of the handshake, if any, and
  \<open>rsp_code\<close> the operation code of the response packet.
\<close>

definition connect_cb ::
  "collab \<Rightarrow> callback_data \<Rightarrow> gerror option \<Rightarrow> 8 word \<Rightarrow> world \<Rightarrow> world option" where
  "connect_cb c cd err rsp_code w =
     (let gerr = (case err of
                    Some e \<Rightarrow> Some e
                  | None \<Rightarrow>
                      if rsp_code \<noteq> G_OBEX_RSP_SUCCESS
                      then Some (GError (- EIO) (connect_failed_message rsp_code))
                      else None)
      in obc_session_unref (cd_session cd)
           (invoke c (cd_func cd) (cd_session cd) gerr (cd_data cd) w))"

text \<open>
  \<open>transport_func\<close>: \<open>err\<close> is the transport's error, \<open>new_obex\<close> what \<open>g_obex_new\<close>
  returns, and \<open>connect_err\<close> the error that \<open>g_obex_connect\<close> sets, if any.  The
  label \<open>done\<close> is \<open>transport_done\<close>.
\<close>

definition transport_done ::
  "collab \<Rightarrow> callback_data \<Rightarrow> gerror option \<Rightarrow> world \<Rightarrow> world option" where
  "transport_done c cd err w =
     obc_session_unref (cd_session cd)
       (invoke c (cd_func cd) (cd_session cd) err (cd_data cd) w)"

definition transport_func ::
  "collab \<Rightarrow> callback_data \<Rightarrow> gerror option \<Rightarrow> ptr option \<Rightarrow> gerror option \<Rightarrow> world \<Rightarrow>
   world option" where
  "transport_func c cd err new_obex connect_err w =
     (case lookup (cd_session cd) w of
        None \<Rightarrow> None
      | Some se \<Rightarrow>
          (case err of
             Some e \<Rightarrow> transport_done c cd (Some e) w
           | None \<Rightarrow>
               (case new_obex of
                  None \<Rightarrow> transport_done c cd None w
                | Some ob \<Rightarrow>
                    (let w1 = emit (Ev_obex_connect ob (drv_target (driver se)) cd) w
                     in case connect_err of
                          Some e \<Rightarrow> transport_done c cd (Some e) (emit (Ev_obex_unref ob) w1)
                        | None \<Rightarrow>
                            do {
                              w2 \<leftarrow> modify (cd_session cd) (\<lambda>x. x\<lparr>obex := Some ob\<rparr>) w1;
                              Some (w2\<lparr>sessions := cd_session cd # sessions w2\<rparr>)
                            }))))"

section \<open>Example worlds\<close>

text \<open>
  Concrete collaborators and worlds on which the theorems below are instantiated.
  \<open>quiet\<close> collaborators: a caller's callback returns without touching anything,
  transfers have no D-Bus path and a size of 100 bytes, and every call succeeds.
\<close>

definition quiet :: collab where
  "quiet = \<lparr>cb_body = (\<lambda>f s e d w. w),
              transfer_get_path = (\<lambda>t. None),
              transfer_get_size = (\<lambda>t. 100),
              transfer_get_rc = (\<lambda>t. 0),
              transfer_put_rc = (\<lambda>t. 0),
              transfer_set_file_rc = (\<lambda>t. 0),
              agent_request_rc = (\<lambda>a p. 0),
              strerror = (\<lambda>n. ''error'')\<rparr>"

text \<open>The Object Push driver, and an environment in which every step succeeds.\<close>

definition opp_driver :: obc_driver where
  "opp_driver = \<lparr>drv_service = Some ''OPP'',
                 drv_uuid = ''00001105-0000-1000-8000-00805f9b34fb'',
                 drv_target = None, drv_probe = True, drv_remove = True\<rparr>"

definition good_env :: "nat \<Rightarrow> create_env" where
  "good_env n = \<lparr>transport_found = Some ''Bluetooth'', driver_found = Some opp_driver,
                 bus_ok = True, session_alloc_ok = True, watch_id = 1,
                 callback_alloc_ok = True, connect_id = n\<rparr>"

definition world0 :: world where
  "world0 = \<lparr>heap = (\<lambda>a. None), brk = 1, sessions = [], idle = [], requests = [],
             trace = []\<rparr>"

text \<open>
  A session as \<open>obc_session_create\<close> leaves it while the transport is connecting
  (\<open>connecting_session\<close>), and as it is once the handshake has succeeded and the
  connect closure has dropped its reference (\<open>connected_session\<close>).
\<close>

definition connecting_session :: obc_session where
  "connecting_session =
     \<lparr>id' = 1, refcount = 2, source = None, destination = Some ''AA:BB:CC:DD:EE:FF'',
      channel = 0, transport = Some ''Bluetooth'', driver = opp_driver, path = None,
      conn = True, obex = None, agent = None, callback = None, owner = None, watch = 0,
      pending = []\<rparr>"

definition connected_session :: obc_session where
  "connected_session = connecting_session\<lparr>refcount := 1, obex := Some 5\<rparr>"

definition world_of :: "obc_session \<Rightarrow> world" where
  "world_of se = world0\<lparr>heap := (heap world0)(1 \<mapsto> se), brk := 2,
                        sessions := (if obex se = None then [] else [1])\<rparr>"





text \<open>
  Sessions with two queued transfers: without a completion callback, with one, and
  with an agent; and collaborators whose transfers have a D-Bus path.  Then the run
  that terminates the first transfer of the session with a callback.
\<close>

definition callback_session :: obc_session where
  "callback_session = connected_session\<lparr>refcount := 3, pending := [10, 11],
     callback := Some \<lparr>sc_func = 9, sc_data = 0\<rparr>\<rparr>"



definition the_agent :: obc_agent where
  "the_agent = \<lparr>agent_name = '':1.42'', agent_path = ''/agent''\<rparr>"


definition agent_connected_session :: obc_session where
  "agent_connected_session = connected_session\<lparr>agent := Some the_agent\<rparr>"


definition with_paths :: collab where
  "with_paths = quiet\<lparr>transfer_get_path := (\<lambda>t. Some ''/org/openobex/transfer'')\<rparr>"




definition two_puts :: "(int \<times> int \<times> ptr list \<times> event list) option" where
  "two_puts =
     do {
       (r1, w1) \<leftarrow> obc_session_put with_paths 1 ''first'' (Some ''a.txt'') (Some 10)
                     (world_of agent_connected_session);
       w2 \<leftarrow> agent_replies with_paths
               \<lparr>pd_cb = Session_prepare_put, pd_session = 1, pd_transfer = 10\<rparr>
               (Reply_name []) w1;
       (r2, w3) \<leftarrow> obc_session_put with_paths 1 ''second'' (Some ''b.txt'') (Some 11) w2;
       se \<leftarrow> lookup 1 w3;
       Some (r1, r2, pending se, trace w3)
     }"


text \<open>Two \<open>obc_session_create\<close> for the same tuple, before the transport has answered.\<close>

definition two_creates :: "(ptr option \<times> ptr option \<times> ptr list \<times> event list) option" where
  "two_creates =
     do {
       (s1, w1) \<leftarrow> obc_session_create None (Some ''AA:BB:CC:DD:EE:FF'') (Some ''OPP'') 0 None
                     7 0 (good_env 1) world0;
       (s2, w2) \<leftarrow> obc_session_create None (Some ''AA:BB:CC:DD:EE:FF'') (Some ''OPP'') 0 None
                     8 0 (good_env 2) w1;
       Some (s1, s2, sessions w1, trace w2)
     }"

text \<open>
  A session whose transport is connected and whose OBEX CONNECT request is out:
  \<open>transport_func\<close> has stored the OBEX handle and registered the session, the creator
  and the connect closure hold one reference each.  A caller that gives the session
  up when its callback is told of an error (\<open>obc_session_shutdown\<close>, then
  \<open>obc_session_unref\<close>).  The response 0x43 (forbidden) to the CONNECT request, and the
  run of \<open>connect_cb\<close> on it with a caller that does nothing.
\<close>

definition handshaking_session :: obc_session where
  "handshaking_session = connecting_session\<lparr>obex := Some 5\<rparr>"

definition releasing :: collab where
  "releasing = quiet\<lparr>cb_body := (\<lambda>f s e d w.
     case e of
       None \<Rightarrow> w
     | Some x \<Rightarrow>
         (case obc_session_shutdown s w of
            None \<Rightarrow> w
          | Some w1 \<Rightarrow> (case obc_session_unref s w1 of None \<Rightarrow> w1 | Some w2 \<Rightarrow> w2)))\<rparr>"

definition closure7 :: callback_data where
  "closure7 = \<lparr>cd_session = 1, cd_func = 7, cd_data = 0\<rparr>"

definition refusal :: gerror where
  "refusal = GError (- EIO) (connect_failed_message 0x43)"

definition refused_connect ::
  "(obc_session option \<times> ptr list \<times> event list) option" where
  "refused_connect =
     do {
       w1 \<leftarrow> connect_cb quiet \<lparr>cd_session = 1, cd_func = 7, cd_data = 0\<rparr> None 0x43
               (world_of handshaking_session);
       Some (heap w1 1, sessions w1, trace w1)
     }"




text \<open>
  Requests made while the OBEX CONNECT request is out.  The session is created, the
  transport delivers the stream, and \<open>transport_func\<close> sends the CONNECT request.  No
  response has arrived, so \<open>connect_cb\<close> has not run and the caller's connect callback
  has not been called, when \<open>obc_session_get\<close> and \<open>obc_session_pull\<close> are called.
\<close>

definition requests_during_handshake :: "(int \<times> int \<times> ptr list \<times> event list) option" where
  "requests_during_handshake =
     do {
       (s1, w1) \<leftarrow> obc_session_create None (Some ''AA:BB:CC:DD:EE:FF'') (Some ''OPP'') 0 None
                     7 0 (good_env 1) world0;
       w2 \<leftarrow> transport_func quiet closure7 None (Some 5) None w1;
       (r1, w3) \<leftarrow> obc_session_get quiet 1 None (Some ''a.vcf'') None None None 0 (Some 10) w2;
       (r2, w4) \<leftarrow> obc_session_pull quiet 1 (Some ''text/x-vcard'') (Some ''b.vcf'') None 0
                     (Some 11) w3;
       se \<leftarrow> lookup 1 w4;
       Some (r1, r2, pending se, trace w4)
     }"

section \<open>The Bluetooth transport (obexd/client/bluetooth.c)\<close>

subsection \<open>Parsing the service UUID\<close>

text \<open>
  \<open>bt_string2uuid\<close> is one call of \<open>sscanf\<close> with the format
  \<open>%08x-%04hx-%04hx-%04hx-%08x%04hx\<close>.  The model of \<open>sscanf\<close> is that of the GNU C
  library: a \<open>%x\<close> directive skips white space, then reads, within its field width, an
  optional sign, an optional \<open>0x\<close> prefix and hexadecimal digits; it fails when it has
  read neither a digit nor a prefix (a prefix with no digit behind it is read as a
  whole and converts as 0); an ordinary character of the format must be the next
  character of the input; whatever follows the last directive is not looked at.
\<close>

definition isspace :: "char \<Rightarrow> bool" where
  "isspace ch = (let n = (of_char ch :: nat) in n = 32 \<or> (9 \<le> n \<and> n \<le> 13))"

definition hex_value :: "char \<Rightarrow> nat option" where
  "hex_value ch =
     (let n = (of_char ch :: nat)
      in if 48 \<le> n \<and> n \<le> 57 then Some (n - 48)
         else if 97 \<le> n \<and> n \<le> 102 then Some (n - 87)
         else if 65 \<le> n \<and> n \<le> 70 then Some (n - 55)
         else None)"

definition isxdigit :: "char \<Rightarrow> bool" where
  "isxdigit ch = (hex_value ch \<noteq> None)"

definition digit_value :: "char \<Rightarrow> nat" where
  "digit_value ch = (case hex_value ch of None \<Rightarrow> 0 | Some d \<Rightarrow> d)"

fun hex_number :: "nat \<Rightarrow> string \<Rightarrow> nat" where
  "hex_number acc [] = acc"
| "hex_number acc (ch # cs) = hex_number (16 * acc + digit_value ch) cs"

text \<open>
  The sign and the prefix of a \<open>%x\<close> field; each counts against the field width.
  \<open>skip_0x\<close> also says whether it has read a prefix.
\<close>

definition skip_sign :: "nat \<Rightarrow> string \<Rightarrow> bool \<times> string \<times> nat" where
  "skip_sign width s =
     (case s of
        [] \<Rightarrow> (False, s, width)
      | ch # r \<Rightarrow>
          if (ch = CHR ''-'' \<or> ch = CHR ''+'') \<and> 0 < width
          then (ch = CHR ''-'', r, width - 1)
          else (False, s, width))"

definition skip_0x :: "nat \<Rightarrow> string \<Rightarrow> bool \<times> string \<times> nat" where
  "skip_0x width s =
     (case s of
        ch # x # r \<Rightarrow>
          if ch = CHR ''0'' \<and> (x = CHR ''x'' \<or> x = CHR ''X'') \<and> 2 \<le> width
          then (True, r, width - 2)
          else (False, s, width)
      | _ \<Rightarrow> (False, s, width))"

definition scan_hex :: "nat \<Rightarrow> string \<Rightarrow> (bool \<times> nat \<times> string) option" where
  "scan_hex width s =
     (case skip_sign width (dropWhile isspace s) of
        (neg, s2, w2) \<Rightarrow>
          (case skip_0x w2 s2 of
             (pre, s3, w3) \<Rightarrow>
               (let ds = takeWhile isxdigit (take w3 s3)
                in if ds = [] \<and> \<not> pre then None
                   else Some (neg, hex_number 0 ds, drop (length ds) s3))))"

definition match_char :: "char \<Rightarrow> string \<Rightarrow> string option" where
  "match_char ch s = (case s of [] \<Rightarrow> None | x # r \<Rightarrow> if x = ch then Some r else None)"

text \<open>
  The value of a field is stored as by \<open>strtoul\<close>: a leading minus negates it, and
  it is cut to the 32 bits of an \<open>uint32_t\<close>, or the 16 bits of an \<open>uint16_t\<close> for
  \<open>%hx\<close>.
\<close>

definition store32 :: "bool \<Rightarrow> nat \<Rightarrow> 32 word" where
  "store32 neg n = (if neg then - of_nat n else of_nat n)"

definition store16 :: "bool \<Rightarrow> nat \<Rightarrow> 16 word" where
  "store16 neg n = (if neg then - of_nat n else of_nat n)"

text \<open>The six fields, when \<open>sscanf\<close> returns 6; \<open>None\<close> when it returns less.\<close>

definition sscanf_uuid ::
  "string \<Rightarrow> (32 word \<times> 16 word \<times> 16 word \<times> 16 word \<times> 32 word \<times> 16 word) option" where
  "sscanf_uuid s =
     do {
       (n0, v0, r0) \<leftarrow> scan_hex 8 s;
       r0' \<leftarrow> match_char (CHR ''-'') r0;
       (n1, v1, r1) \<leftarrow> scan_hex 4 r0';
       r1' \<leftarrow> match_char (CHR ''-'') r1;
       (n2, v2, r2) \<leftarrow> scan_hex 4 r1';
       r2' \<leftarrow> match_char (CHR ''-'') r2;
       (n3, v3, r3) \<leftarrow> scan_hex 4 r2';
       r3' \<leftarrow> match_char (CHR ''-'') r3;
       (n4, v4, r4) \<leftarrow> scan_hex 8 r3';
       (n5, v5, r5) \<leftarrow> scan_hex 4 r4;
       Some (store32 n0 v0, store16 n1 v1, store16 n2 v2, store16 n3 v3, store32 n4 v4,
             store16 n5 v5)
     }"

text \<open>
  \<open>g_htonl\<close> or \<open>g_htons\<close> followed by \<open>memcpy\<close> lays the bytes of a field down most
  significant first, whatever the byte order of the host.
\<close>

definition be32 :: "32 word \<Rightarrow> 8 word list" where
  "be32 x = [ucast (drop_bit 24 x), ucast (drop_bit 16 x), ucast (drop_bit 8 x), ucast x]"

definition be16 :: "16 word \<Rightarrow> 8 word list" where
  "be16 x = [ucast (drop_bit 8 x), ucast x]"

text \<open>
  \<open>bt_string2uuid\<close>: the return value, and the 16 bytes that
  \<open>sdp_uuid128_create\<close> stores in the \<open>uuid_t\<close> when the string is accepted.
\<close>

definition bt_string2uuid :: "string \<Rightarrow> int \<times> 8 word list option" where
  "bt_string2uuid s =
     (case sscanf_uuid s of
        Some (data0, data1, data2, data3, data4, data5) \<Rightarrow>
          (0, Some (be32 data0 @ be16 data1 @ be16 data2 @ be16 data3 @ be32 data4 @ be16 data5))
      | None \<Rightarrow> (- EINVAL, None))"

text \<open>
  The format the spec names, for comparison: eight, four, four, four and twelve
  hexadecimal digits, the groups separated by hyphens, and nothing else; and its
  128-bit value in network order, byte by byte from the pairs of digits.
\<close>

fun hex_group :: "nat \<Rightarrow> string \<Rightarrow> (string \<times> string) option" where
  "hex_group 0 s = Some ([], s)"
| "hex_group (Suc n) [] = None"
| "hex_group (Suc n) (ch # r) =
     (if isxdigit ch
      then (case hex_group n r of None \<Rightarrow> None | Some (g, r') \<Rightarrow> Some (ch # g, r'))
      else None)"

definition canonical_uuid :: "string \<Rightarrow> bool" where
  "canonical_uuid s =
     (case do {
        (g0, r0) \<leftarrow> hex_group 8 s;
        r0' \<leftarrow> match_char (CHR ''-'') r0;
        (g1, r1) \<leftarrow> hex_group 4 r0';
        r1' \<leftarrow> match_char (CHR ''-'') r1;
        (g2, r2) \<leftarrow> hex_group 4 r1';
        r2' \<leftarrow> match_char (CHR ''-'') r2;
        (g3, r3) \<leftarrow> hex_group 4 r2';
        r3' \<leftarrow> match_char (CHR ''-'') r3;
        (g4, r4) \<leftarrow> hex_group 12 r3';
        Some r4
      } of
        Some [] \<Rightarrow> True
      | _ \<Rightarrow> False)"

fun hex_pairs :: "string \<Rightarrow> 8 word list" where
  "hex_pairs (hi # lo # r) =
     of_nat (16 * digit_value hi + digit_value lo) # hex_pairs r"
| "hex_pairs r = []"

definition uuid128_of :: "string \<Rightarrow> 8 word list" where
  "uuid128_of s = hex_pairs (filter (\<lambda>ch. ch \<noteq> CHR ''-'') s)"

subsection \<open>The connection object and its teardown\<close>

text \<open>
  \<open>struct bluetooth_session\<close>; the addresses are kept as text, \<open>conn_system\<close> says
  whether the system bus connection is set, a pending D-Bus call is a number.
\<close>

record bluetooth_session =
  bt_id :: nat
  bt_src :: string
  bt_dst :: string
  bt_port :: "16 word"
  bt_conn_system :: bool
  bt_sdp :: "nat option"
  bt_io :: "nat option"
  bt_pending_calls :: "nat list"
  bt_adapter :: "string option"
  bt_service :: "string option"
  bt_func :: "nat option"
  bt_user_data :: nat

datatype watch_function = Service_callback | Process_callback

text \<open>
  The calls that leave bluetooth.c.  \<open>Bt_func\<close> is the call of the caller's result
  function \<open>session->func\<close>; \<open>Bt_method_call\<close> is \<open>send_method_call\<close> with the object
  path, the interface, the method and the pending call it returns, if any.
\<close>

datatype bt_event =
    Bt_func nat "nat option" "gerror option" nat
  | Bt_method_call string string string "nat option"
  | Bt_pending_call_cancel nat
  | Bt_pending_call_unref nat
  | Bt_io_shutdown nat
  | Bt_io_unref nat
  | Bt_io_add_watch nat watch_function
  | Bt_rfcomm_connect string string "8 word" "nat option"
  | Bt_sdp_connect string string "nat option"
  | Bt_sdp_close nat
  | Bt_sdp_search nat "8 word list"
  | Bt_connection_unref

text \<open>
  The state that bluetooth.c sees: the heap of connection objects, the static list
  \<open>sessions\<close> of the file, the static counter \<open>id\<close> of \<open>bluetooth_connect\<close>, and the
  trace.
\<close>

record bt_world =
  bt_heap :: "nat \<Rightarrow> bluetooth_session option"
  bt_brk :: nat
  bt_sessions :: "nat list"
  bt_last_id :: nat
  bt_trace :: "bt_event list"

text \<open>
  The collaborators: the body of the caller's result function (it may come back into
  the transport, for instance to disconnect), and whether D-Bus has completed a
  pending call.
\<close>

record bt_collab =
  func_body :: "nat \<Rightarrow> nat option \<Rightarrow> gerror option \<Rightarrow> nat \<Rightarrow> bt_world \<Rightarrow> bt_world"
  call_completed :: "nat \<Rightarrow> bool"

definition bt_emit :: "bt_event \<Rightarrow> bt_world \<Rightarrow> bt_world" where
  "bt_emit e w = w\<lparr>bt_trace := bt_trace w @ [e]\<rparr>"

definition bt_modify ::
  "nat \<Rightarrow> (bluetooth_session \<Rightarrow> bluetooth_session) \<Rightarrow> bt_world \<Rightarrow> bt_world option" where
  "bt_modify s f w =
     (case bt_heap w s of
        None \<Rightarrow> None
      | Some se \<Rightarrow> Some (w\<lparr>bt_heap := (bt_heap w)(s \<mapsto> f se)\<rparr>))"

text \<open>\<open>if (session->func) session->func(io, err, session->user_data)\<close>.\<close>

definition report ::
  "bt_collab \<Rightarrow> nat \<Rightarrow> nat option \<Rightarrow> gerror option \<Rightarrow> bt_world \<Rightarrow> bt_world option" where
  "report k s io err w =
     (case bt_heap w s of
        None \<Rightarrow> None
      | Some se \<Rightarrow>
          (case bt_func se of
             None \<Rightarrow> Some w
           | Some f \<Rightarrow>
               Some (func_body k f io err (bt_user_data se)
                       (bt_emit (Bt_func f io err (bt_user_data se)) w))))"

definition pending_req_finalize :: "bt_collab \<Rightarrow> nat \<Rightarrow> bt_world \<Rightarrow> bt_world" where
  "pending_req_finalize k call w =
     bt_emit (Bt_pending_call_unref call)
       (if \<not> call_completed k call then bt_emit (Bt_pending_call_cancel call) w else w)"

text \<open>
  \<open>session_destroy\<close> of bluetooth.c.  It returns at once for an object that is not
  in the list, before it reads any field.
\<close>

definition bt_session_destroy :: "bt_collab \<Rightarrow> nat \<Rightarrow> bt_world \<Rightarrow> bt_world option" where
  "bt_session_destroy k s w =
     (if s \<notin> set (bt_sessions w) then Some w
      else
        (case bt_heap w s of
           None \<Rightarrow> None
         | Some se \<Rightarrow>
             (let w1 = w\<lparr>bt_sessions := remove1 s (bt_sessions w)\<rparr>;
                  w2 = (case bt_adapter se of
                          None \<Rightarrow> w1
                        | Some a \<Rightarrow>
                            bt_emit (Bt_method_call a ''org.bluez.Adapter'' ''ReleaseSession''
                                       None) w1);
                  w3 = fold (pending_req_finalize k) (bt_pending_calls se) w2;
                  w4 = (case bt_io se of
                          None \<Rightarrow> w3
                        | Some io \<Rightarrow> bt_emit (Bt_io_unref io) (bt_emit (Bt_io_shutdown io) w3));
                  w5 = (if bt_conn_system se then bt_emit Bt_connection_unref w4 else w4)
              in Some (w5\<lparr>bt_heap := (bt_heap w5)(s := None)\<rparr>))))"

subsection \<open>RFCOMM and the SDP search\<close>

definition rfcomm_callback ::
  "bt_collab \<Rightarrow> nat \<Rightarrow> nat option \<Rightarrow> gerror option \<Rightarrow> bt_world \<Rightarrow> bt_world option" where
  "rfcomm_callback k s io err w =
     do {
       w1 \<leftarrow> report k s io err w;
       if err \<noteq> None then bt_session_destroy k s w1 else Some w1
     }"

text \<open>
  The label \<open>failed\<close> of \<open>search_callback\<close> and of \<open>service_callback\<close>, the same
  statements in both: close the socket, report "Unable to find service record",
  destroy the connection object.
\<close>

definition sdp_failed :: "bt_collab \<Rightarrow> nat \<Rightarrow> bt_world \<Rightarrow> bt_world option" where
  "sdp_failed k s w =
     do {
       se \<leftarrow> bt_heap w s;
       let w1 = (case bt_io se of
                   None \<Rightarrow> w
                 | Some io \<Rightarrow> bt_emit (Bt_io_unref io) (bt_emit (Bt_io_shutdown io) w));
       w2 \<leftarrow> bt_modify s (\<lambda>x. x\<lparr>bt_io := None\<rparr>) w1;
       w3 \<leftarrow> report k s None (Some (GError (- EIO) ''Unable to find service record'')) w2;
       bt_session_destroy k s w3
     }"

text \<open>
  One record of the response as the SDP library hands it out: its size, and the RFCOMM
  port of its access protocol list (\<open>-1\<close>, the initial value of \<open>ch\<close>, when the record
  has no such list).  The loop of \<open>search_callback\<close> takes the answers of
  \<open>sdp_extract_pdu\<close> one by one (\<open>None\<close> is NULL); \<open>scanned\<close> and \<open>bytesleft\<close> are
  \<open>unsigned int\<close>, the channel is an \<open>uint8_t\<close>.
\<close>

record sdp_pdu =
  pdu_recsize :: int
  pdu_port :: int

fun search_loop :: "sdp_pdu option list \<Rightarrow> 32 word \<Rightarrow> 32 word \<Rightarrow> nat \<Rightarrow> 8 word" where
  "search_loop [] scanned bytesleft sz = 0"
| "search_loop (None # rs) scanned bytesleft sz = 0"
| "search_loop (Some r # rs) scanned bytesleft sz =
     (if pdu_recsize r = 0 then 0
      else if 0 < pdu_port r then word_of_int (pdu_port r)
      else
        (let scanned' = scanned + word_of_int (pdu_recsize r);
             bytesleft' = bytesleft - word_of_int (pdu_recsize r)
         in if unat scanned' < sz \<and> bytesleft' \<noteq> 0
            then search_loop rs scanned' bytesleft' sz
            else 0))"

definition SDP_SVC_SEARCH_ATTR_RSP :: "8 word" where
  "SDP_SVC_SEARCH_ATTR_RSP = 0x07"

text \<open>
  \<open>search_callback\<close>: \<open>scanned\<close> and \<open>seqlen\<close> are what \<open>sdp_extract_seqtype\<close> gives,
  \<open>recs\<close> the records, \<open>sz\<close> the size of the response, and \<open>rfcomm_io\<close> what
  \<open>rfcomm_connect\<close> returns if it is called.
\<close>

definition search_callback ::
  "bt_collab \<Rightarrow> nat \<Rightarrow> 8 word \<Rightarrow> 16 word \<Rightarrow> 32 word \<Rightarrow> int \<Rightarrow> sdp_pdu option list \<Rightarrow> nat \<Rightarrow>
   nat option \<Rightarrow> bt_world \<Rightarrow> bt_world option" where
  "search_callback k s ty status scanned seqlen recs sz rfcomm_io w =
     (case bt_heap w s of
        None \<Rightarrow> None
      | Some se \<Rightarrow>
          if status \<noteq> 0 \<or> ty \<noteq> SDP_SVC_SEARCH_ATTR_RSP then sdp_failed k s w
          else if scanned = 0 \<or> seqlen = 0 then sdp_failed k s w
          else
            (let chan = search_loop recs scanned (of_nat sz - scanned) sz
             in if chan = 0 then sdp_failed k s w
                else
                  do {
                    let w1 = (case bt_io se of
                                None \<Rightarrow> w
                              | Some io \<Rightarrow> bt_emit (Bt_io_unref io) w);
                    let w2 = bt_emit (Bt_rfcomm_connect (bt_src se) (bt_dst se) chan rfcomm_io) w1;
                    w3 \<leftarrow> bt_modify s (\<lambda>x. x\<lparr>bt_port := ucast chan, bt_io := rfcomm_io\<rparr>) w2;
                    case rfcomm_io of
                      None \<Rightarrow> sdp_failed k s w3
                    | Some io \<Rightarrow>
                        bt_modify s (\<lambda>x. x\<lparr>bt_sdp := None\<rparr>)
                          (case bt_sdp se of
                             None \<Rightarrow> w3
                           | Some sd \<Rightarrow> bt_emit (Bt_sdp_close sd) w3)
                  }))"

text \<open>The bits of a \<open>GIOCondition\<close> (GLib).\<close>

definition G_IO_IN :: "32 word" where "G_IO_IN = 1"
definition G_IO_OUT :: "32 word" where "G_IO_OUT = 4"
definition G_IO_ERR :: "32 word" where "G_IO_ERR = 8"
definition G_IO_HUP :: "32 word" where "G_IO_HUP = 16"
definition G_IO_NVAL :: "32 word" where "G_IO_NVAL = 32"

text \<open>
  \<open>process_callback\<close>, the watch on the SDP socket while the search is out:
  \<open>sdp_process_rc\<close> is what \<open>sdp_process\<close> returns.  The function touches nothing;
  the world is passed through to say so.
\<close>

definition process_callback :: "nat \<Rightarrow> 32 word \<Rightarrow> int \<Rightarrow> bt_world \<Rightarrow> bool \<times> bt_world" where
  "process_callback s cond sdp_process_rc w =
     (if and cond (or G_IO_ERR (or G_IO_HUP G_IO_NVAL)) \<noteq> 0 then (False, w)
      else if sdp_process_rc < 0 then (False, w)
      else (True, w))"

text \<open>
  \<open>service_callback\<close>, the watch on the SDP socket while it connects:
  \<open>set_notify_rc\<close> and \<open>search_rc\<close> are what \<open>sdp_set_notify\<close> and
  \<open>sdp_service_search_attr_async\<close> return.
\<close>

definition service_callback ::
  "bt_collab \<Rightarrow> nat \<Rightarrow> 32 word \<Rightarrow> int \<Rightarrow> int \<Rightarrow> bt_world \<Rightarrow> (bool \<times> bt_world) option" where
  "service_callback k s cond set_notify_rc search_rc w =
     (if and cond G_IO_NVAL \<noteq> 0 then Some (False, w)
      else
        (case bt_heap w s of
           None \<Rightarrow> None
         | Some se \<Rightarrow>
             if and cond G_IO_ERR \<noteq> 0 then map_option (Pair False) (sdp_failed k s w)
             else if set_notify_rc < 0 then map_option (Pair False) (sdp_failed k s w)
             else
               (case bt_service se of
                  None \<Rightarrow> None
                | Some svc \<Rightarrow>
                    (case bt_string2uuid svc of
                       (rc, uuid) \<Rightarrow>
                         if rc < 0 then map_option (Pair False) (sdp_failed k s w)
                         else
                           (let w1 = (case bt_sdp se of
                                        None \<Rightarrow> w
                                      | Some sd \<Rightarrow>
                                          bt_emit (Bt_sdp_search sd
                                            (case uuid of None \<Rightarrow> [] | Some u \<Rightarrow> u)) w)
                            in if search_rc < 0
                               then map_option (Pair False) (sdp_failed k s w1)
                               else Some (False,
                                      (case bt_io se of
                                         None \<Rightarrow> w1
                                       | Some io \<Rightarrow>
                                           bt_emit (Bt_io_add_watch io Process_callback) w1)))))))"

subsection \<open>The adapter and the start of a connection\<close>

text \<open>
  \<open>session_connect\<close> of bluetooth.c: \<open>rfcomm_io\<close> is what \<open>rfcomm_connect\<close> returns;
  \<open>sdp_res\<close> is the outcome of \<open>service_connect\<close>: \<open>None\<close> when \<open>sdp_connect\<close> fails,
  else the SDP session and the channel made for its socket, if any.
\<close>

definition bt_session_connect ::
  "nat \<Rightarrow> nat option \<Rightarrow> (nat \<times> nat option) option \<Rightarrow> bt_world \<Rightarrow> (int \<times> bt_world) option" where
  "bt_session_connect s rfcomm_io sdp_res w =
     (case bt_heap w s of
        None \<Rightarrow> None
      | Some se \<Rightarrow>
          if 0 < bt_port se
          then do {
            let w1 = bt_emit (Bt_rfcomm_connect (bt_src se) (bt_dst se) (ucast (bt_port se))
                                rfcomm_io) w;
            w2 \<leftarrow> bt_modify s (\<lambda>x. x\<lparr>bt_io := rfcomm_io\<rparr>) w1;
            Some (if rfcomm_io = None then - EINVAL else 0, w2)
          }
          else
            (case sdp_res of
               None \<Rightarrow>
                 do {
                   w1 \<leftarrow> bt_modify s (\<lambda>x. x\<lparr>bt_sdp := None\<rparr>)
                          (bt_emit (Bt_sdp_connect (bt_src se) (bt_dst se) None) w);
                   Some (- ENOMEM, w1)
                 }
             | Some (sd, None) \<Rightarrow>
                 do {
                   w1 \<leftarrow> bt_modify s (\<lambda>x. x\<lparr>bt_sdp := None\<rparr>)
                          (bt_emit (Bt_sdp_close sd)
                             (bt_emit (Bt_sdp_connect (bt_src se) (bt_dst se) (Some sd)) w));
                   Some (- ENOMEM, w1)
                 }
             | Some (sd, Some io) \<Rightarrow>
                 do {
                   w1 \<leftarrow> bt_modify s (\<lambda>x. x\<lparr>bt_io := Some io, bt_sdp := Some sd\<rparr>)
                          (bt_emit (Bt_io_add_watch io Service_callback)
                             (bt_emit (Bt_sdp_connect (bt_src se) (bt_dst se) (Some sd)) w));
                   Some (0, w1)
                 }))"

text \<open>The labels \<open>failed\<close> of \<open>adapter_reply\<close> and of \<open>manager_reply\<close>.\<close>

definition reply_failed :: "bt_collab \<Rightarrow> nat \<Rightarrow> string \<Rightarrow> bt_world \<Rightarrow> bt_world option" where
  "reply_failed k s msg w =
     do {
       se \<leftarrow> bt_heap w s;
       w1 \<leftarrow> report k s (bt_io se) (Some (GError (- EINVAL) msg)) w;
       bt_session_destroy k s w1
     }"

text \<open>
  \<open>adapter_reply\<close>, the reply to \<open>RequestSession\<close>; \<open>reply_error\<close> says whether the
  reply is a D-Bus error.  A call that is not in \<open>pending_calls\<close> makes
  \<open>find_session_request\<close> return NULL, which \<open>pending_req_finalize\<close> dereferences.
\<close>

definition adapter_reply ::
  "bt_collab \<Rightarrow> nat \<Rightarrow> nat \<Rightarrow> bool \<Rightarrow> nat option \<Rightarrow> (nat \<times> nat option) option \<Rightarrow> bt_world \<Rightarrow>
   bt_world option" where
  "adapter_reply k s call reply_error rfcomm_io sdp_res w =
     (case bt_heap w s of
        None \<Rightarrow> None
      | Some se \<Rightarrow>
          if call \<notin> set (bt_pending_calls se) then None
          else
            do {
              w1 \<leftarrow> bt_modify s (\<lambda>x. x\<lparr>bt_pending_calls := remove1 call (bt_pending_calls x)\<rparr>) w;
              let w2 = pending_req_finalize k call w1;
              if reply_error then reply_failed k s ''Unable to request session'' w2
              else do {
                (rc, w3) \<leftarrow> bt_session_connect s rfcomm_io sdp_res w2;
                if rc < 0 then reply_failed k s ''Unable to request session'' w3
                else Some w3
              }
            })"

text \<open>
  \<open>manager_reply\<close>, the reply to \<open>DefaultAdapter\<close> or \<open>FindAdapter\<close>: a D-Bus error,
  an object path, or arguments of another type.  \<open>new_call\<close> is the pending call that
  \<open>send_method_call\<close> returns for \<open>RequestSession\<close>, if any.
\<close>

datatype manager_answer = Answer_error | Answer_adapter string | Answer_other

definition manager_reply ::
  "bt_collab \<Rightarrow> nat \<Rightarrow> nat \<Rightarrow> manager_answer \<Rightarrow> nat option \<Rightarrow> bt_world \<Rightarrow> bt_world option" where
  "manager_reply k s call answer new_call w =
     (case bt_heap w s of
        None \<Rightarrow> None
      | Some se \<Rightarrow>
          if call \<notin> set (bt_pending_calls se) then None
          else
            do {
              w1 \<leftarrow> bt_modify s (\<lambda>x. x\<lparr>bt_pending_calls := remove1 call (bt_pending_calls x)\<rparr>) w;
              let w2 = pending_req_finalize k call w1;
              case answer of
                Answer_error \<Rightarrow> reply_failed k s ''No adapter found'' w2
              | Answer_other \<Rightarrow> reply_failed k s ''No adapter found'' w2
              | Answer_adapter a \<Rightarrow>
                  do {
                    w3 \<leftarrow> bt_modify s (\<lambda>x. x\<lparr>bt_adapter := Some a\<rparr>) w2;
                    let w4 = bt_emit (Bt_method_call a ''org.bluez.Adapter'' ''RequestSession''
                                        new_call) w3;
                    case new_call of
                      None \<Rightarrow> reply_failed k s ''No adapter found'' w4
                    | Some c \<Rightarrow>
                        bt_modify s (\<lambda>x. x\<lparr>bt_pending_calls := c # bt_pending_calls x\<rparr>) w4
                  }
            })"

text \<open>
  \<open>bluetooth_connect\<close>: \<open>have_memory\<close> and \<open>have_bus\<close> say whether the allocation and the
  system bus are to be had, \<open>call\<close> is the pending call of the first method call, if
  it could be sent.  The argument \<open>port\<close> is not stored anywhere by the function: the
  port of the new object is the 0 that \<open>g_try_malloc0\<close> leaves.
\<close>

definition bluetooth_connect ::
  "string option \<Rightarrow> string option \<Rightarrow> string option \<Rightarrow> 16 word \<Rightarrow> nat option \<Rightarrow> nat \<Rightarrow> bool \<Rightarrow>
   bool \<Rightarrow> nat option \<Rightarrow> bt_world \<Rightarrow> nat \<times> bt_world" where
  "bluetooth_connect src dst svc port fn user_data have_memory have_bus call w =
     (case dst of
        None \<Rightarrow> (0, w)
      | Some d \<Rightarrow>
          if \<not> have_memory then (0, w)
          else
            (let i = bt_last_id w + 1;
                 w1 = w\<lparr>bt_last_id := i\<rparr>
             in if \<not> have_bus then (0, w1)
                else
                  (let w2 = bt_emit (Bt_method_call ''/'' ''org.bluez.Manager''
                                       (if src = None then ''DefaultAdapter'' else ''FindAdapter'')
                                       call) w1
                   in case call of
                        None \<Rightarrow> (0, w2)
                      | Some c \<Rightarrow>
                          (let s = bt_brk w2;
                               se = \<lparr>bt_id = i,
                                     bt_src = (case src of None \<Rightarrow> ''00:00:00:00:00:00''
                                               | Some a \<Rightarrow> a),
                                     bt_dst = d, bt_port = 0, bt_conn_system = True,
                                     bt_sdp = None, bt_io = None, bt_pending_calls = [c],
                                     bt_adapter = None, bt_service = svc, bt_func = fn,
                                     bt_user_data = user_data\<rparr>
                           in (i, w2\<lparr>bt_heap := (bt_heap w2)(s \<mapsto> se), bt_brk := s + 1,
                                     bt_sessions := s # bt_sessions w2\<rparr>)))))"

text \<open>\<open>bluetooth_disconnect\<close>: the first object of the list with the id, if any.\<close>

definition bluetooth_disconnect :: "bt_collab \<Rightarrow> nat \<Rightarrow> bt_world \<Rightarrow> bt_world option" where
  "bluetooth_disconnect k i w =
     (case filter (\<lambda>s. case bt_heap w s of None \<Rightarrow> False | Some se \<Rightarrow> bt_id se = i)
             (bt_sessions w) of
        [] \<Rightarrow> Some w
      | s # rest \<Rightarrow> bt_session_destroy k s w)"

subsection \<open>Example runs of the transport\<close>

text \<open>
  A caller whose result function does not come back into the transport.  The pending
  calls that are finalised in the runs below are those whose reply is being handled,
  so D-Bus says of each that it is completed.
\<close>

definition bt_quiet :: bt_collab where
  "bt_quiet = \<lparr>func_body = (\<lambda>f io err d w. w), call_completed = (\<lambda>c. True)\<rparr>"

definition bt_world0 :: bt_world where
  "bt_world0 = \<lparr>bt_heap = (\<lambda>a. None), bt_brk = 1, bt_sessions = [], bt_last_id = 0,
                bt_trace = []\<rparr>"

text \<open>
  A connection to the Object Push service, taken as far as the SDP search: the default
  adapter is found, the session on it is granted, the SDP socket (SDP session 50,
  channel 60) connects and the search request goes out.  Then the socket reports a
  hang-up to \<open>process_callback\<close>.  The run gives what \<open>process_callback\<close> returns, the
  registry, the calls of the result function so far, and whether the socket has been
  shut down.
\<close>

definition is_report :: "bt_event \<Rightarrow> bool" where
  "is_report e = (case e of Bt_func f io err d \<Rightarrow> True | _ \<Rightarrow> False)"

definition searching :: "bt_world option" where
  "searching =
     (case bluetooth_connect None (Some ''AA:BB:CC:DD:EE:FF'')
             (Some ''00001105-0000-1000-8000-00805f9b34fb'') 0 (Some 3) 0 True True (Some 100)
             bt_world0 of
        (i, w1) \<Rightarrow>
          do {
            w2 \<leftarrow> manager_reply bt_quiet 1 100 (Answer_adapter ''/org/bluez/hci0'') (Some 101) w1;
            w3 \<leftarrow> adapter_reply bt_quiet 1 101 False None (Some (50, Some 60)) w2;
            (b, w4) \<leftarrow> service_callback bt_quiet 1 G_IO_OUT 0 0 w3;
            Some w4
          })"

definition sdp_hangup :: "(bool \<times> nat list \<times> bt_event list \<times> bool) option" where
  "sdp_hangup =
     do {
       w4 \<leftarrow> searching;
       (b, w5) \<leftarrow> Some (process_callback 1 G_IO_HUP 0 w4);
       Some (b, bt_sessions w5, filter is_report (bt_trace w5),
             Bt_io_shutdown 60 \<in> set (bt_trace w5))
     }"

definition sdp_refused :: "(nat list \<times> bt_event list) option" where
  "sdp_refused =
     do {
       w4 \<leftarrow> searching;
       w5 \<leftarrow> search_callback bt_quiet 1 SDP_SVC_SEARCH_ATTR_RSP 1 0 0 [] 0 None w4;
       Some (bt_sessions w5, drop (length (bt_trace w4)) (bt_trace w5))
     }"

text \<open>The events that finalising a list of pending calls leaves in the trace.\<close>

definition finalize_events :: "bt_collab \<Rightarrow> nat list \<Rightarrow> bt_event list" where
  "finalize_events k cs =
     concat (map (\<lambda>c. (if \<not> call_completed k c then [Bt_pending_call_cancel c] else [])
                        @ [Bt_pending_call_unref c]) cs)"

section \<open>Properties of the session manager\<close>

subsection \<open>Requests on a session that is not connected\<close>

text \<open>
  C9, as the claim states it, fails.  A session is not connected until the response
  to its OBEX CONNECT request has arrived, but \<open>transport_func\<close> stores the OBEX handle
  when it sends the request.  In the run below the request is out and no response has
  come (the trace holds no call of the connect callback): \<open>obc_session_get\<close> and
  \<open>obc_session_pull\<close> both return 0, not \<open>-ENOTCONN\<close>, register their transfers 10 and
  11 and put them into the queue.
\<close>

theorem requests_accepted_during_handshake:
  "requests_during_handshake =
     Some (0, 0, [10, 11],
       [Ev_transport_connect None (Some ''AA:BB:CC:DD:EE:FF'')
          ''00001105-0000-1000-8000-00805f9b34fb'' 0 closure7,
        Ev_obex_connect 5 None closure7,
        Ev_transfer_register None (Some ''a.vcf'') None None None (Some 10),
        Ev_transfer_register None None (Some ''b.vcf'') (Some ''text/x-vcard'') None
          (Some 11)])"
  by (simp add: requests_during_handshake_def obc_session_create_def create_proceed_def
      session_connect_def session_find_def transport_func_def obc_session_get_def
      obc_session_pull_def session_request_def obc_session_add_transfer_def
      obc_session_ref_def obc_agent_get_name_def lookup_def modify_def emit_def closure7_def
      world0_def good_env_def opp_driver_def quiet_def)

text \<open>What the requests do once they are past the test of the OBEX handle.\<close>

lemma session_request_total:
  assumes "heap w s = Some se"
  shows "\<exists>r w' es. session_request c s cb t w = Some (r, w') \<and> trace w' = trace w @ es
           \<and> heap w' = heap w"
  using assms
  by (auto simp: session_request_def lookup_def Let_def emit_def split: option.splits)

lemma add_transfer_live:
  assumes "heap w s = Some se"
  shows "obc_session_add_transfer s t w =
     Some (w\<lparr>heap := (heap w)(s \<mapsto> se\<lparr>pending := pending se @ [t],
                                        refcount := refcount se + 1\<rparr>)\<rparr>)"
  using assms by (simp add: obc_session_add_transfer_def obc_session_ref_def modify_def)

lemma agent_name_guard:
  "(if a \<noteq> None then obc_agent_get_name a else None) = obc_agent_get_name a"
  "(if \<exists>y. a = Some y then obc_agent_get_name a else None) = obc_agent_get_name a"
  by (cases a; simp add: obc_agent_get_name_def)+

lemma get_registers:
  assumes live: "heap w s = Some se" and ob: "obex se = Some ob"
  shows "\<exists>r w' es. obc_session_get c s ty filename targetname apparam fn user_data reg w
             = Some (r, w')
           \<and> trace w' = trace w @
               Ev_transfer_register (obc_agent_get_name (agent se)) filename targetname ty apparam
                 reg # es"
proof (cases reg)
  case None
  with live ob show ?thesis
    by (simp add: obc_session_get_def lookup_def Let_def emit_def agent_name_guard)
next
  case (Some t)
  let ?e = "Ev_transfer_register (obc_agent_get_name (agent se)) filename targetname ty apparam
              (Some t)"
  let ?cb = "case fn of None \<Rightarrow> callback se
             | Some f \<Rightarrow> Some \<lparr>sc_func = f, sc_data = user_data\<rparr>"
  let ?w2 = "w\<lparr>heap := (heap w)(s \<mapsto> se\<lparr>callback := ?cb\<rparr>), trace := trace w @ [?e]\<rparr>"
  have h2: "heap ?w2 s = Some (se\<lparr>callback := ?cb\<rparr>)" by simp
  from session_request_total [OF h2, of c Session_prepare_get t] obtain r w3 es where
    q: "session_request c s Session_prepare_get t ?w2 = Some (r, w3)" and
    t3: "trace w3 = trace ?w2 @ es" and h3: "heap w3 = heap ?w2"
    by blast
  have h3': "heap w3 s = Some (se\<lparr>callback := ?cb\<rparr>)" using h3 by simp
  have m: "(case fn of None \<Rightarrow> Some (emit ?e w)
            | Some f \<Rightarrow> modify s (\<lambda>x. x\<lparr>callback := Some \<lparr>sc_func = f, sc_data = user_data\<rparr>\<rparr>)
                (emit ?e w)) = Some ?w2"
    using live by (cases fn) (simp_all add: modify_def emit_def map_upd_triv)
  have g: "obc_session_get c s ty filename targetname apparam fn user_data (Some t) w =
      (if r < 0 then Some (r, emit (Ev_transfer_unregister t) w3)
       else do { w4 \<leftarrow> obc_session_add_transfer s t w3; Some (0, w4) })"
    using live ob Some m q
    by (simp add: obc_session_get_def lookup_def Let_def agent_name_guard)
  show ?thesis
    unfolding Some g using t3 by (simp add: add_transfer_live [OF h3'] emit_def)
qed

lemma pull_registers:
  assumes live: "heap w s = Some se" and ob: "obex se = Some ob"
  shows "\<exists>r w' es. obc_session_pull c s ty filename fn user_data reg w = Some (r, w')
           \<and> trace w' = trace w @
               Ev_transfer_register (obc_agent_get_name (agent se)) None filename ty None
                 reg # es"
proof (cases reg)
  case None
  with live ob show ?thesis
    by (simp add: obc_session_pull_def lookup_def Let_def emit_def agent_name_guard)
next
  case (Some t)
  let ?e = "Ev_transfer_register (obc_agent_get_name (agent se)) None filename ty None
              (Some t)"
  let ?cb = "case fn of None \<Rightarrow> callback se
             | Some f \<Rightarrow> Some \<lparr>sc_func = f, sc_data = user_data\<rparr>"
  let ?w2 = "w\<lparr>heap := (heap w)(s \<mapsto> se\<lparr>callback := ?cb\<rparr>), trace := trace w @ [?e]\<rparr>"
  have h2: "heap ?w2 s = Some (se\<lparr>callback := ?cb\<rparr>)" by simp
  from session_request_total [OF h2, of c Session_prepare_get t] obtain r w3 es where
    q: "session_request c s Session_prepare_get t ?w2 = Some (r, w3)" and
    t3: "trace w3 = trace ?w2 @ es" and h3: "heap w3 = heap ?w2"
    by blast
  have h3': "heap w3 s = Some (se\<lparr>callback := ?cb\<rparr>)" using h3 by simp
  have m: "(case fn of None \<Rightarrow> Some (emit ?e w)
            | Some f \<Rightarrow> modify s (\<lambda>x. x\<lparr>callback := Some \<lparr>sc_func = f, sc_data = user_data\<rparr>\<rparr>)
                (emit ?e w)) = Some ?w2"
    using live by (cases fn) (simp_all add: modify_def emit_def map_upd_triv)
  have g: "obc_session_pull c s ty filename fn user_data (Some t) w =
      (if r = 0 then do { w4 \<leftarrow> obc_session_add_transfer s t w3; Some (0, w4) }
       else Some (r, emit (Ev_transfer_unregister t) w3))"
    using live ob Some m q
    by (simp add: obc_session_pull_def lookup_def Let_def agent_name_guard)
  show ?thesis
    unfolding Some g using t3 by (simp add: add_transfer_live [OF h3'] emit_def)
qed

lemma send_registers:
  assumes live: "heap w s = Some se" and ob: "obex se = Some ob"
  shows "\<exists>r w' es. obc_session_send c s filename targetname reg w = Some (r, w')
           \<and> trace w' = trace w @
               Ev_transfer_register (obc_agent_get_name (agent se)) filename targetname None None
                 reg # es"
proof (cases reg)
  case None
  with live ob show ?thesis
    by (simp add: obc_session_send_def lookup_def Let_def emit_def)
next
  case (Some t)
  let ?e = "Ev_transfer_register (obc_agent_get_name (agent se)) filename targetname None None
              (Some t)"
  let ?w2 = "w\<lparr>trace := trace w @ [?e, Ev_transfer_set_file t]\<rparr>"
  have h2: "heap ?w2 s = Some se" using live by simp
  from session_request_total [OF h2, of c Session_prepare_put t] obtain r w3 es where
    q: "session_request c s Session_prepare_put t ?w2 = Some (r, w3)" and
    t3: "trace w3 = trace ?w2 @ es" and h3: "heap w3 = heap ?w2"
    by blast
  have h3': "heap w3 s = Some se" using h3 live by simp
  have g: "obc_session_send c s filename targetname (Some t) w =
      (if transfer_set_file_rc c t < 0
       then Some (transfer_set_file_rc c t, emit (Ev_transfer_unregister t) ?w2)
       else if pending se \<noteq> []
       then do { w4 \<leftarrow> obc_session_add_transfer s t ?w2; Some (0, w4) }
       else if r < 0 then Some (r, emit (Ev_transfer_unregister t) w3)
       else do { w4 \<leftarrow> obc_session_add_transfer s t w3; Some (0, w4) })"
    using live ob Some q
    by (simp add: obc_session_send_def lookup_def Let_def emit_def)
  show ?thesis
    unfolding Some g using t3
    by (simp add: add_transfer_live [OF h3'] add_transfer_live [OF h2] emit_def)
qed

lemma put_registers:
  assumes live: "heap w s = Some se" and ob: "obex se = Some ob" and idle: "pending se = []"
  shows "\<exists>r w' es. obc_session_put c s buf targetname reg w = Some (r, w')
           \<and> trace w' = trace w @
               Ev_transfer_register (obc_agent_get_name (agent se)) None targetname None None
                 reg # es"
proof (cases reg)
  case None
  with live ob idle show ?thesis
    by (simp add: obc_session_put_def lookup_def Let_def emit_def)
next
  case (Some t)
  let ?e = "Ev_transfer_register (obc_agent_get_name (agent se)) None targetname None None
              (Some t)"
  let ?w2 = "w\<lparr>trace := trace w @ [?e, Ev_transfer_set_buffer t buf]\<rparr>"
  have h2: "heap ?w2 s = Some se" using live by simp
  from session_request_total [OF h2, of c Session_prepare_put t] obtain r w3 es where
    q: "session_request c s Session_prepare_put t ?w2 = Some (r, w3)" and
    t3: "trace w3 = trace ?w2 @ es" and h3: "heap w3 = heap ?w2"
    by blast
  have g: "obc_session_put c s buf targetname (Some t) w =
      (if r < 0 then Some (r, w3) else Some (0, w3))"
    using live ob idle Some q
    by (simp add: obc_session_put_def lookup_def Let_def emit_def)
  show ?thesis
    unfolding Some g using t3 by simp
qed

text \<open>
  C9, amended.  What each of the four requests tests is the OBEX handle of the
  session, not the state of the handshake.  On a session whose handle is not set each
  of them returns \<open>-ENOTCONN\<close> at once and leaves the whole world as it was: the
  pending queue, the stored callback and the agent of the session are untouched, and
  no call leaves session.c.  On a session whose handle is set none of them does so:
  \<open>obc_session_get\<close>, \<open>obc_session_send\<close> and \<open>obc_session_pull\<close> go on to register
  a transfer, and so does \<open>obc_session_put\<close> unless the queue is not empty, when it
  returns \<open>-EISCONN\<close>.  And the handle is set by \<open>transport_func\<close> as soon as the OBEX
  CONNECT request is sent, so a session whose handshake has not ended counts as
  connected.
\<close>

theorem requests_test_only_the_obex_handle:
  assumes live: "lookup s w = Some se"
  shows
   "(obex se = None \<longrightarrow>
        obc_session_get c s ty filename targetname apparam fn user_data reg w
          = Some (- ENOTCONN, w)
      \<and> obc_session_send c s filename targetname reg w = Some (- ENOTCONN, w)
      \<and> obc_session_pull c s ty filename fn user_data reg w = Some (- ENOTCONN, w)
      \<and> obc_session_put c s buf targetname reg w = Some (- ENOTCONN, w))
    \<and> (obex se \<noteq> None \<longrightarrow>
        (\<exists>r w' es. obc_session_get c s ty filename targetname apparam fn user_data reg w
             = Some (r, w')
           \<and> trace w' = trace w @
               Ev_transfer_register (obc_agent_get_name (agent se)) filename targetname ty apparam
                 reg # es)
      \<and> (\<exists>r w' es. obc_session_send c s filename targetname reg w = Some (r, w')
           \<and> trace w' = trace w @
               Ev_transfer_register (obc_agent_get_name (agent se)) filename targetname None None
                 reg # es)
      \<and> (\<exists>r w' es. obc_session_pull c s ty filename fn user_data reg w = Some (r, w')
           \<and> trace w' = trace w @
               Ev_transfer_register (obc_agent_get_name (agent se)) None filename ty None
                 reg # es)
      \<and> (pending se = [] \<longrightarrow>
           (\<exists>r w' es. obc_session_put c s buf targetname reg w = Some (r, w')
              \<and> trace w' = trace w @
                  Ev_transfer_register (obc_agent_get_name (agent se)) None targetname None None
                    reg # es))
      \<and> (pending se \<noteq> [] \<longrightarrow>
           obc_session_put c s buf targetname reg w = Some (- EISCONN, w)))
    \<and> (cd_session cd = s \<longrightarrow>
         transport_func c cd None (Some ob) None w =
           Some (w\<lparr>heap := (heap w)(s \<mapsto> se\<lparr>obex := Some ob\<rparr>),
                   sessions := s # sessions w,
                   trace := trace w @ [Ev_obex_connect ob (drv_target (driver se)) cd]\<rparr>))"
proof (intro conjI impI)
  assume n: "obex se = None"
  with live show
    "obc_session_get c s ty filename targetname apparam fn user_data reg w
       = Some (- ENOTCONN, w)"
    "obc_session_send c s filename targetname reg w = Some (- ENOTCONN, w)"
    "obc_session_pull c s ty filename fn user_data reg w = Some (- ENOTCONN, w)"
    "obc_session_put c s buf targetname reg w = Some (- ENOTCONN, w)"
    by (simp_all add: obc_session_get_def obc_session_send_def obc_session_pull_def
        obc_session_put_def)
next
  assume "obex se \<noteq> None"
  then obtain o' where o: "obex se = Some o'" by auto
  from live have h: "heap w s = Some se" by (simp add: lookup_def)
  show "\<exists>r w' es. obc_session_get c s ty filename targetname apparam fn user_data reg w
             = Some (r, w')
           \<and> trace w' = trace w @
               Ev_transfer_register (obc_agent_get_name (agent se)) filename targetname ty apparam
                 reg # es"
    by (rule get_registers [OF h o])
  show "\<exists>r w' es. obc_session_send c s filename targetname reg w = Some (r, w')
           \<and> trace w' = trace w @
               Ev_transfer_register (obc_agent_get_name (agent se)) filename targetname None None
                 reg # es"
    by (rule send_registers [OF h o])
  show "\<exists>r w' es. obc_session_pull c s ty filename fn user_data reg w = Some (r, w')
           \<and> trace w' = trace w @
               Ev_transfer_register (obc_agent_get_name (agent se)) None filename ty None
                 reg # es"
    by (rule pull_registers [OF h o])
  show "\<exists>r w' es. obc_session_put c s buf targetname reg w = Some (r, w')
              \<and> trace w' = trace w @
                  Ev_transfer_register (obc_agent_get_name (agent se)) None targetname None None
                    reg # es"
    if "pending se = []"
    by (rule put_registers [OF h o that])
  show "obc_session_put c s buf targetname reg w = Some (- EISCONN, w)"
    if "pending se \<noteq> []"
    using that live o by (simp add: obc_session_put_def)
next
  assume "cd_session cd = s"
  with live show "transport_func c cd None (Some ob) None w =
           Some (w\<lparr>heap := (heap w)(s \<mapsto> se\<lparr>obex := Some ob\<rparr>),
                   sessions := s # sessions w,
                   trace := trace w @ [Ev_obex_connect ob (drv_target (driver se)) cd]\<rparr>)"
    by (simp add: transport_func_def lookup_def modify_def emit_def Let_def)
qed

theorem requests_test_only_the_obex_handle_witness:
  "obex connecting_session = None
   \<and> obc_session_get quiet 1 None (Some ''a.vcf'') None None (Some 9) 0 (Some 10)
        (world_of connecting_session) = Some (- ENOTCONN, world_of connecting_session)
   \<and> obc_session_send quiet 1 (Some ''a.vcf'') None (Some 10)
        (world_of connecting_session) = Some (- ENOTCONN, world_of connecting_session)
   \<and> obc_session_pull quiet 1 None (Some ''a.vcf'') (Some 9) 0 (Some 10)
        (world_of connecting_session) = Some (- ENOTCONN, world_of connecting_session)
   \<and> obc_session_put quiet 1 ''buffer'' None (Some 10)
        (world_of connecting_session) = Some (- ENOTCONN, world_of connecting_session)
   \<and> transport_func quiet closure7 None (Some 5) None (world_of connecting_session) =
        Some ((world_of handshaking_session)\<lparr>trace := [Ev_obex_connect 5 None closure7]\<rparr>)
   \<and> obex handshaking_session \<noteq> None
   \<and> (\<exists>r w' es. obc_session_get quiet 1 None (Some ''a.vcf'') None None (Some 9) 0 (Some 10)
          (world_of handshaking_session) = Some (r, w')
        \<and> trace w' = Ev_transfer_register None (Some ''a.vcf'') None None None (Some 10) # es)"
proof -
  have l: "lookup 1 (world_of connecting_session) = Some connecting_session"
    and l2: "lookup 1 (world_of handshaking_session) = Some handshaking_session"
    by (simp_all add: lookup_def world_of_def)
  have o: "obex connecting_session = None"
    by (simp add: connecting_session_def)
  have o2: "obex handshaking_session \<noteq> None"
    by (simp add: handshaking_session_def)
  have cd: "cd_session closure7 = 1"
    by (simp add: closure7_def)
  note n = requests_test_only_the_obex_handle [OF l, THEN conjunct1, THEN mp, OF o]
  note t = requests_test_only_the_obex_handle [where c = quiet and ob = 5, OF l,
      THEN conjunct2, THEN conjunct2, THEN mp, OF cd]
  note g = requests_test_only_the_obex_handle [where c = quiet and ty = None
      and filename = "Some ''a.vcf''" and targetname = None and apparam = None
      and fn = "Some 9" and user_data = 0 and reg = "Some 10", OF l2,
      THEN conjunct2, THEN conjunct1, THEN mp, OF o2, THEN conjunct1]
  have w: "(world_of connecting_session)\<lparr>heap := (heap (world_of connecting_session))
              (1 \<mapsto> connecting_session\<lparr>obex := Some 5\<rparr>),
            sessions := 1 # sessions (world_of connecting_session),
            trace := trace (world_of connecting_session) @
              [Ev_obex_connect 5 (drv_target (driver connecting_session)) closure7]\<rparr>
         = (world_of handshaking_session)\<lparr>trace := [Ev_obex_connect 5 None closure7]\<rparr>"
    by (simp add: world_of_def world0_def handshaking_session_def connecting_session_def
        opp_driver_def)
  have a: "agent handshaking_session = None" "trace (world_of handshaking_session) = []"
    by (simp_all add: handshaking_session_def connecting_session_def world_of_def world0_def)
  note t' = t [unfolded w]
  show ?thesis
    using n t' g o o2 by (simp add: a obc_agent_get_name_def)
qed

subsection \<open>The lookup in the registry\<close>







subsection \<open>Reference counting and shutdown\<close>

lemma modify_Some:
  "modify s f w = Some w' \<longleftrightarrow>
     (\<exists>se. heap w s = Some se \<and> w' = w\<lparr>heap := (heap w)(s \<mapsto> f se)\<rparr>)"
  by (auto simp: modify_def split: option.splits)

lemma session_free_heap:
  "session_free s w = Some w' \<Longrightarrow> heap w' s = None"
  by (auto simp: session_free_def Let_def bind_eq_Some_conv split: option.splits)


text \<open>
  Dropping references and freeing a session touch neither the idle queue nor the
  agent requests, and only add to the trace.
\<close>

lemma session_unregistered_keeps:
  "session_unregistered s w = Some w' \<Longrightarrow>
     idle w' = idle w \<and> requests w' = requests w \<and> sessions w' = sessions w
     \<and> (\<exists>es. trace w' = trace w @ es)"
  by (auto simp: session_unregistered_def lookup_def modify_Some bind_eq_Some_conv emit_def
      Let_def split: option.splits if_splits)

lemma session_unregistered_total:
  "heap w s = Some se \<Longrightarrow> \<exists>w'. session_unregistered s w = Some w'"
  by (simp add: session_unregistered_def lookup_def modify_def emit_def Let_def)

lemma session_free_releases_keeps:
  "idle (session_free_releases se w) = idle w
   \<and> requests (session_free_releases se w) = requests w
   \<and> sessions (session_free_releases se w) = sessions w
   \<and> heap (session_free_releases se w) = heap w
   \<and> (\<exists>es. trace (session_free_releases se w) = trace w @ es)"
  by (simp add: session_free_releases_def emit_def Let_def split: option.splits)



text \<open>On a live session \<open>session_free\<close> and \<open>obc_session_unref\<close> always return.\<close>

lemma session_free_total:
  assumes "heap w s = Some se"
  shows "\<exists>w'. session_free s w = Some w'"
proof -
  have "heap (session_free_releases se w) s = Some se"
    using assms session_free_releases_keeps [of se w] by simp
  from session_unregistered_total [OF this] assms show ?thesis
    by (auto simp: session_free_def lookup_def Let_def)
qed
















lemmas session_defs = obc_session_ref_def obc_session_unref_def session_free_def
  session_free_releases_def session_unregistered_def obc_session_add_transfer_def obc_session_remove_transfer_def
  lookup_def modify_def emit_def invoke_def

lemmas example_defs = world_of_def world0_def connected_session_def connecting_session_def
  opp_driver_def quiet_def good_env_def








subsection \<open>What follows the end of a transfer\<close>

lemmas request_defs = session_request_def session_request_proceed_def call_prepare_def
  session_prepare_get_def session_prepare_put_def run_idle_def obc_agent_get_name_def






text \<open>
  When the agent answers a request with an error, the completion callback is called
  with the code \<open>-ECANCELED\<close> and the text \<open>(null)\<close>, not with the agent's message.
\<close>

lemma refused_request_reports_null:
  "map_option trace
     (session_request_reply quiet
        \<lparr>pd_cb = Session_prepare_put, pd_session = 1, pd_transfer = 10\<rparr>
        (Reply_error ''Rejected'') (world_of callback_session)) =
   Some [Ev_callback 9 1 (Some (GError (- ECANCELED) ''(null)'')) 0,
         Ev_transfer_unregister 10]"
  by (simp add: session_request_reply_def session_terminate_transfer_def callback_session_def
      session_defs example_defs)




subsection \<open>The queue and the start of a transfer\<close>




text \<open>
  C2.  The code does not do what the claim says.  \<open>obc_session_put\<close> tests the queue
  but never puts its own transfer into it (the other three requests call
  \<open>obc_session_add_transfer\<close>).  So after a first put, whose transfer 10 has been
  authorised by the agent and started and has not ended, the queue is still empty,
  and a second put returns 0, not \<open>-EISCONN\<close>, registers transfer 11 and asks the
  agent to authorise it.
\<close>

theorem second_put_is_not_rejected:
  "two_puts = Some (0, 0, [],
   [Ev_transfer_register (Some '':1.42'') None (Some ''a.txt'') None None (Some 10),
    Ev_transfer_set_buffer 10 ''first'',
    Ev_agent_request the_agent ''/org/openobex/transfer'',
    Ev_transfer_put 10,
    Ev_transfer_register (Some '':1.42'') None (Some ''b.txt'') None None (Some 11),
    Ev_transfer_set_buffer 11 ''second'',
    Ev_agent_request the_agent ''/org/openobex/transfer''])"
  by (simp add: two_puts_def obc_session_put_def agent_replies_def session_request_reply_def
      request_defs session_defs example_defs agent_connected_session_def the_agent_def
      with_paths_def)

subsection \<open>Creating a session twice\<close>

text \<open>
  C5.  The code does not do what the claim says while the transport is still
  connecting.  A session enters the registry only in \<open>transport_func\<close>; until then
  \<open>session_find\<close> cannot see it, so a second \<open>obc_session_create\<close> for the same
  tuple allocates a second session (address 2) and calls the transport's \<open>connect\<close> a
  second time.  The branch "ongoing connection" of \<open>session_connect\<close> is never reached.
\<close>

theorem second_create_connects_again:
  "two_creates = Some (Some 1, Some 2, [],
     [Ev_transport_connect None (Some ''AA:BB:CC:DD:EE:FF'')
        ''00001105-0000-1000-8000-00805f9b34fb'' 0
        \<lparr>cd_session = 1, cd_func = 7, cd_data = 0\<rparr>,
      Ev_transport_connect None (Some ''AA:BB:CC:DD:EE:FF'')
        ''00001105-0000-1000-8000-00805f9b34fb'' 0
        \<lparr>cd_session = 2, cd_func = 8, cd_data = 0\<rparr>])"
  by (simp add: two_creates_def obc_session_create_def create_proceed_def session_connect_def
      session_find_def session_defs example_defs)

subsection \<open>The end of the OBEX CONNECT handshake\<close>

text \<open>
  C4, as the claim states it, fails.  The session is in the middle of the handshake
  and the response is 0x43.  \<open>connect_cb\<close> calls the caller's callback with the error
  and drops the closure's reference; with a caller that does nothing in its callback
  the session is still allocated afterwards, still in the registry, still holds the
  OBEX handle 5, and the transport has not been told to disconnect.
\<close>

theorem refused_connect_keeps_session:
  "refused_connect =
     Some (Some (handshaking_session\<lparr>refcount := 1\<rparr>), [1],
           [Ev_callback 7 1 (Some (GError (- 5) ''OBEX Connect failed with 0x43'')) 0])"
  by (simp add: refused_connect_def connect_cb_def connect_failed_message_def digit_char_def
      G_OBEX_RSP_SUCCESS_def EIO_def handshaking_session_def session_defs example_defs)

text \<open>Dropping the last reference destroys the session.\<close>

lemma unref_last:
  assumes "heap w s = Some se" and "refcount se = 1"
  shows "\<exists>w'. obc_session_unref s w = Some w' \<and> heap w' s = None
           \<and> sessions w' = remove1 s (sessions w)
           \<and> (\<forall>ob. obex se = Some ob \<longrightarrow> Ev_obex_unref ob \<in> set (trace w'))
           \<and> (0 < id' se \<and> transport se \<noteq> None
                \<longrightarrow> Ev_transport_disconnect (id' se) \<in> set (trace w'))"
proof -
  let ?se = "se\<lparr>refcount := refcount se - 1\<rparr>"
  let ?w = "w\<lparr>heap := (heap w)(s \<mapsto> ?se)\<rparr>"
  let ?w4 = "session_free_releases ?se ?w"
  have u: "obc_session_unref s w = session_free s ?w"
    using assms by (simp add: obc_session_unref_def lookup_def modify_def)
  have l: "heap ?w s = Some ?se" by simp
  from session_free_total [OF l] obtain w' where f: "session_free s ?w = Some w'" by auto
  from f obtain w5 where
    w5: "(if path ?se \<noteq> None then session_unregistered s ?w4 else Some ?w4) = Some w5" and
    w': "sessions w' = remove1 s (sessions w5)" "\<exists>es. trace w' = trace w5 @ es"
    by (auto simp: session_free_def lookup_def Let_def bind_eq_Some_conv emit_def
        split: if_splits)
  from w5 have k5: "sessions w5 = sessions ?w4 \<and> (\<exists>es. trace w5 = trace ?w4 @ es)"
    by (auto dest: session_unregistered_keeps split: if_splits)
  have t4: "(\<forall>ob. obex se = Some ob \<longrightarrow> Ev_obex_unref ob \<in> set (trace ?w4))
      \<and> (0 < id' se \<and> transport se \<noteq> None
            \<longrightarrow> Ev_transport_disconnect (id' se) \<in> set (trace ?w4))"
    by (auto simp: session_free_releases_def Let_def emit_def split: option.splits)
  have s4: "sessions ?w4 = sessions w"
    using session_free_releases_keeps [of ?se ?w] by simp
  from session_free_heap [OF f] u f w' k5 t4 s4 show ?thesis by auto
qed

text \<open>
  C4, amended.  If the handshake ends with a transport error or a response other
  than success, \<open>connect_cb\<close> calls the caller's connect callback once, with an error
  (the transport's, or \<open>-EIO\<close> "OBEX Connect failed with 0x.."), and then drops the
  reference that the connect closure held.  If that was the last reference (the
  caller has given up its own in the callback), the session is destroyed: it is freed
  and taken out of the registry, the OBEX handle is released and the transport is
  disconnected if it still has a connection id.  Otherwise the session stays as the
  callback left it, one reference less, OBEX handle included.  The OBEX handle is
  stored and the session registered by \<open>transport_func\<close> as soon as the CONNECT
  request is sent, before any response.
\<close>

theorem connect_failure_reported_then_unref:
  assumes fail: "err \<noteq> None \<or> rsp_code \<noteq> G_OBEX_RSP_SUCCESS"
      and e: "e = (case err of Some x \<Rightarrow> x
                   | None \<Rightarrow> GError (- EIO) (connect_failed_message rsp_code))"
      and w1: "w1 = invoke c (cd_func cd) (cd_session cd) (Some e) (cd_data cd) w"
      and live: "heap w1 (cd_session cd) = Some se1"
  shows "connect_cb c cd err rsp_code w = obc_session_unref (cd_session cd) w1
       \<and> (refcount se1 \<noteq> 1 \<longrightarrow>
            connect_cb c cd err rsp_code w =
              Some (w1\<lparr>heap := (heap w1)(cd_session cd \<mapsto> se1\<lparr>refcount := refcount se1 - 1\<rparr>)\<rparr>))
       \<and> (refcount se1 = 1 \<longrightarrow>
            (\<exists>w'. connect_cb c cd err rsp_code w = Some w'
               \<and> heap w' (cd_session cd) = None
               \<and> sessions w' = remove1 (cd_session cd) (sessions w1)
               \<and> (\<forall>ob. obex se1 = Some ob \<longrightarrow> Ev_obex_unref ob \<in> set (trace w'))
               \<and> (0 < id' se1 \<and> transport se1 \<noteq> None
                    \<longrightarrow> Ev_transport_disconnect (id' se1) \<in> set (trace w'))))
       \<and> (heap w (cd_session cd) = Some se \<longrightarrow>
            transport_func c cd None (Some ob) None w =
              Some (w\<lparr>heap := (heap w)(cd_session cd \<mapsto> se\<lparr>obex := Some ob\<rparr>),
                      sessions := cd_session cd # sessions w,
                      trace := trace w @ [Ev_obex_connect ob (drv_target (driver se)) cd]\<rparr>))"
proof -
  have a: "connect_cb c cd err rsp_code w = obc_session_unref (cd_session cd) w1"
    using fail e w1 by (auto simp: connect_cb_def Let_def split: option.splits)
  have b: "obc_session_unref (cd_session cd) w1 =
              Some (w1\<lparr>heap := (heap w1)(cd_session cd \<mapsto> se1\<lparr>refcount := refcount se1 - 1\<rparr>)\<rparr>)"
    if "refcount se1 \<noteq> 1"
    using that live by (simp add: obc_session_unref_def lookup_def modify_def)
  have d: "transport_func c cd None (Some ob) None w =
              Some (w\<lparr>heap := (heap w)(cd_session cd \<mapsto> se\<lparr>obex := Some ob\<rparr>),
                      sessions := cd_session cd # sessions w,
                      trace := trace w @ [Ev_obex_connect ob (drv_target (driver se)) cd]\<rparr>)"
    if "heap w (cd_session cd) = Some se"
    using that by (simp add: transport_func_def lookup_def modify_def emit_def Let_def)
  from a b d unref_last [OF live] show ?thesis by simp
qed

theorem connect_failure_reported_then_unref_witness:
  "connect_cb quiet closure7 None 0x43 (world_of handshaking_session) =
      Some ((world_of handshaking_session)\<lparr>
              heap := (heap (world_of handshaking_session))
                        (1 \<mapsto> handshaking_session\<lparr>refcount := 1\<rparr>),
              trace := [Ev_callback 7 1 (Some refusal) 0]\<rparr>)
   \<and> (\<exists>w'. connect_cb releasing closure7 None 0x43 (world_of handshaking_session) = Some w'
        \<and> heap w' 1 = None \<and> sessions w' = [] \<and> Ev_obex_unref 5 \<in> set (trace w'))
   \<and> transport_func quiet closure7 None (Some 5) None (world_of connecting_session) =
        Some ((world_of connecting_session)\<lparr>
                heap := (heap (world_of connecting_session))
                          (1 \<mapsto> connecting_session\<lparr>obex := Some 5\<rparr>),
                sessions := [1],
                trace := [Ev_obex_connect 5 None closure7]\<rparr>)"
proof -
  have fail: "(None :: gerror option) \<noteq> None \<or> (0x43 :: 8 word) \<noteq> G_OBEX_RSP_SUCCESS"
    by (simp add: G_OBEX_RSP_SUCCESS_def)
  have e: "refusal = (case (None :: gerror option) of Some x \<Rightarrow> x
                   | None \<Rightarrow> GError (- EIO) (connect_failed_message 0x43))"
    by (simp add: refusal_def)
  let ?wq = "invoke quiet (cd_func closure7) (cd_session closure7) (Some refusal)
               (cd_data closure7) (world_of handshaking_session)"
  let ?wr = "invoke releasing (cd_func closure7) (cd_session closure7) (Some refusal)
               (cd_data closure7) (world_of handshaking_session)"
  have wq: "?wq = (world_of handshaking_session)\<lparr>trace := [Ev_callback 7 1 (Some refusal) 0]\<rparr>"
    by (simp add: invoke_def quiet_def emit_def closure7_def world_of_def world0_def)
  have lq: "heap ?wq (cd_session closure7) = Some handshaking_session"
    unfolding wq by (simp add: world_of_def closure7_def)
  have nq: "refcount handshaking_session \<noteq> 1"
    by (simp add: handshaking_session_def connecting_session_def)
  have wr: "?wr = (world_of handshaking_session)\<lparr>
              heap := (heap (world_of handshaking_session))
                        (1 \<mapsto> handshaking_session\<lparr>refcount := 1, id' := 0\<rparr>),
              trace := [Ev_callback 7 1 (Some refusal) 0, Ev_transport_disconnect 1]\<rparr>"
    by (simp add: releasing_def obc_session_shutdown_def closure7_def handshaking_session_def
        session_defs example_defs)
  have lr: "heap ?wr (cd_session closure7) = Some (handshaking_session\<lparr>refcount := 1, id' := 0\<rparr>)"
    unfolding wr by (simp add: closure7_def)
  have l0: "heap (world_of connecting_session) (cd_session closure7) = Some connecting_session"
    by (simp add: world_of_def closure7_def)
  have r1: "connect_cb quiet closure7 None 0x43 (world_of handshaking_session) =
      Some (?wq\<lparr>heap := (heap ?wq)(cd_session closure7 \<mapsto>
                 handshaking_session\<lparr>refcount := refcount handshaking_session - 1\<rparr>)\<rparr>)"
    by (rule connect_failure_reported_then_unref [OF fail e refl lq, THEN conjunct2,
          THEN conjunct1, THEN mp, OF nq])
  have r2: "\<exists>w'. connect_cb releasing closure7 None 0x43 (world_of handshaking_session) = Some w'
        \<and> heap w' (cd_session closure7) = None
        \<and> sessions w' = remove1 (cd_session closure7) (sessions ?wr)
        \<and> (\<forall>ob. obex (handshaking_session\<lparr>refcount := 1, id' := 0\<rparr>) = Some ob
               \<longrightarrow> Ev_obex_unref ob \<in> set (trace w'))
        \<and> (0 < id' (handshaking_session\<lparr>refcount := 1, id' := 0\<rparr>)
             \<and> transport (handshaking_session\<lparr>refcount := 1, id' := 0\<rparr>) \<noteq> None
               \<longrightarrow> Ev_transport_disconnect (id' (handshaking_session\<lparr>refcount := 1, id' := 0\<rparr>))
                     \<in> set (trace w'))"
    by (rule connect_failure_reported_then_unref [OF fail e refl lr, THEN conjunct2,
          THEN conjunct2, THEN conjunct1, THEN mp]) simp
  have r3: "transport_func quiet closure7 None (Some 5) None (world_of connecting_session) =
              Some ((world_of connecting_session)\<lparr>
                      heap := (heap (world_of connecting_session))
                                (cd_session closure7 \<mapsto> connecting_session\<lparr>obex := Some 5\<rparr>),
                      sessions := cd_session closure7 # sessions (world_of connecting_session),
                      trace := trace (world_of connecting_session) @
                        [Ev_obex_connect 5 (drv_target (driver connecting_session)) closure7]\<rparr>)"
  proof -
    have "heap (invoke quiet (cd_func closure7) (cd_session closure7) (Some refusal)
               (cd_data closure7) (world_of connecting_session)) (cd_session closure7)
            = Some connecting_session"
      by (simp add: invoke_def quiet_def emit_def closure7_def world_of_def)
    from connect_failure_reported_then_unref [OF fail e refl this, THEN conjunct2,
          THEN conjunct2, THEN conjunct2, THEN mp, OF l0]
    show ?thesis .
  qed
  have s: "sessions ?wr = [1]" "obex (handshaking_session\<lparr>refcount := 1, id' := 0\<rparr>) = Some 5"
    unfolding wr by (simp_all add: handshaking_session_def world_of_def world0_def)
  from r2 s have r2': "\<exists>w'. connect_cb releasing closure7 None 0x43 (world_of handshaking_session)
         = Some w' \<and> heap w' 1 = None \<and> sessions w' = [] \<and> Ev_obex_unref 5 \<in> set (trace w')"
    by (auto simp: closure7_def)
  from r1 r3 r2' show ?thesis
    unfolding wq
    by (simp add: closure7_def handshaking_session_def connecting_session_def world_of_def
        world0_def opp_driver_def)
qed

section \<open>Properties of the Bluetooth transport\<close>

subsection \<open>The service UUID\<close>

text \<open>Hexadecimal digits are neither white space, nor signs, nor the x of a prefix.\<close>

lemma xdigit_not: "isxdigit ch \<Longrightarrow> \<not> isspace ch \<and> ch \<noteq> CHR ''-'' \<and> ch \<noteq> CHR ''+''
   \<and> ch \<noteq> CHR ''x'' \<and> ch \<noteq> CHR ''X''"
  by (auto simp: isxdigit_def hex_value_def isspace_def Let_def split: if_splits)

lemma digit_value_less: "digit_value ch < 16"
  by (auto simp: digit_value_def hex_value_def Let_def split: option.splits if_splits)

text \<open>The bytes of a 32-bit and of a 16-bit field, from its hexadecimal digits.\<close>

lemma byte_of_word:
  fixes x :: "'a::len word"
  shows "(ucast (drop_bit k x) :: 8 word) = of_nat (unat x div 2 ^ k mod 256)"
proof -
  have "unat (ucast (drop_bit k x) :: 8 word) = unat x div 2 ^ k mod 256"
    by (simp only: unsigned_ucast_eq unat_drop_bit_eq) (simp add: drop_bit_eq_div take_bit_eq_mod)
  moreover have "unat (of_nat (unat x div 2 ^ k mod 256) :: 8 word) = unat x div 2 ^ k mod 256"
    by (simp add: unat_of_nat)
  ultimately show ?thesis by (simp only: word_unat_eq_iff)
qed

lemma be32_of_nat:
  assumes "n < 2 ^ 32"
  shows "be32 (of_nat n) =
     [of_nat (n div 2 ^ 24 mod 256), of_nat (n div 2 ^ 16 mod 256),
      of_nat (n div 2 ^ 8 mod 256), of_nat (n mod 256)]"
proof -
  have u: "unat (of_nat n :: 32 word) = n"
    using assms by (simp add: unat_of_nat)
  show ?thesis
    unfolding be32_def
    using byte_of_word [of 24 "of_nat n :: 32 word"] byte_of_word [of 16 "of_nat n :: 32 word"]
      byte_of_word [of 8 "of_nat n :: 32 word"] byte_of_word [of 0 "of_nat n :: 32 word"]
    by (simp only: u list.inject) simp
qed

lemma be16_of_nat:
  assumes "n < 2 ^ 16"
  shows "be16 (of_nat n) = [of_nat (n div 2 ^ 8 mod 256), of_nat (n mod 256)]"
proof -
  have u: "unat (of_nat n :: 16 word) = n"
    using assms by (simp add: unat_of_nat)
  show ?thesis
    unfolding be16_def
    using byte_of_word [of 8 "of_nat n :: 16 word"] byte_of_word [of 0 "of_nat n :: 16 word"]
    by (simp only: u list.inject) simp
qed

lemma base256:
  "x < 256 \<Longrightarrow> (256 * m + x) div 256 = (m::nat)"
  "x < 256 \<Longrightarrow> (256 * m + x) mod 256 = x"
  by simp_all

lemma digits16:
  assumes "a < 16" "b < 16" "c < 16" "d < (16::nat)"
  defines "n \<equiv> 16 * (16 * (16 * a + b) + c) + d"
  shows "n < 2 ^ 16" "n div 2 ^ 8 mod 256 = 16 * a + b" "n mod 256 = 16 * c + d"
proof -
  define A B where "A = 16 * a + b" and "B = 16 * c + d"
  have s: "A < 256" "B < 256" using assms(1-4) by (simp_all add: A_def B_def)
  have n: "n = 256 * A + B" by (simp add: n_def A_def B_def)
  show "n < 2 ^ 16" using s by (simp add: n)
  show "n mod 256 = 16 * c + d" using base256(2) [OF s(2), of A] by (simp add: n B_def)
  have "n div 256 = A" using base256(1) [OF s(2), of A] by (simp add: n)
  then show "n div 2 ^ 8 mod 256 = 16 * a + b" using s by (simp add: A_def)
qed

lemma digits32:
  assumes "a < 16" "b < 16" "c < 16" "d < 16" "e < 16" "f < 16" "g < 16" "h < (16::nat)"
  defines "n \<equiv> 16 * (16 * (16 * (16 * (16 * (16 * (16 * a + b) + c) + d) + e) + f) + g) + h"
  shows "n < 2 ^ 32" "n div 2 ^ 24 mod 256 = 16 * a + b" "n div 2 ^ 16 mod 256 = 16 * c + d"
    "n div 2 ^ 8 mod 256 = 16 * e + f" "n mod 256 = 16 * g + h"
proof -
  define A B C D where "A = 16 * a + b" and "B = 16 * c + d" and "C = 16 * e + f"
    and "D = 16 * g + h"
  define M2 where "M2 = 256 * A + B"
  define M1 where "M1 = 256 * M2 + C"
  have s: "A < 256" "B < 256" "C < 256" "D < 256"
    using assms(1-8) by (simp_all add: A_def B_def C_def D_def)
  have n: "n = 256 * M1 + D" by (simp add: n_def M1_def M2_def A_def B_def C_def D_def)
  show "n < 2 ^ 32" using s by (simp add: n M1_def M2_def)
  have d1: "n div 256 = M1" unfolding n by (rule base256(1) [OF s(4)])
  have d2: "M1 div 256 = M2" unfolding M1_def by (rule base256(1) [OF s(3)])
  have d3: "M2 div 256 = A" unfolding M2_def by (rule base256(1) [OF s(2)])
  have m0: "n mod 256 = D" unfolding n by (rule base256(2) [OF s(4)])
  have m1: "M1 mod 256 = C" unfolding M1_def by (rule base256(2) [OF s(3)])
  have m2: "M2 mod 256 = B" unfolding M2_def by (rule base256(2) [OF s(2)])
  have e16: "n div 2 ^ 16 = M2" using d1 d2 div_mult2_eq [of n 256 256] by simp
  have e24: "n div 2 ^ 24 = A" using e16 d3 div_mult2_eq [of n 65536 256] by simp
  show "n mod 256 = 16 * g + h" using m0 by (simp add: D_def)
  show "n div 2 ^ 8 mod 256 = 16 * e + f" using d1 m1 by (simp add: C_def)
  show "n div 2 ^ 16 mod 256 = 16 * c + d" using e16 m2 by (simp add: B_def)
  show "n div 2 ^ 24 mod 256 = 16 * a + b" using e24 s by (simp add: A_def)
qed

text \<open>What the recogniser of a group and the \<open>%x\<close> directive do on a run of digits.\<close>

lemma hex_group_Some:
  "hex_group n s = Some (g, r) \<Longrightarrow> s = g @ r \<and> length g = n \<and> list_all isxdigit g"
proof (induction n arbitrary: s g)
  case 0
  then show ?case by simp
next
  case (Suc n)
  then show ?case
    by (cases s) (auto split: if_splits option.splits)
qed

lemma takeWhile_all: "list_all P xs \<Longrightarrow> takeWhile P xs = xs"
  by (induction xs) auto

text \<open>
  A run of digits that fills the field, or that ends before a character which is
  neither a digit nor the x of a prefix, is converted as it stands.
\<close>

lemma scan_hex_run:
  assumes x: "list_all isxdigit ds" and ne: "ds \<noteq> []" and le: "length ds \<le> w"
      and stop: "length ds = w \<or> (case r of [] \<Rightarrow> True
                   | ch # r' \<Rightarrow> \<not> isxdigit ch \<and> ch \<noteq> CHR ''x'' \<and> ch \<noteq> CHR ''X'')"
  shows "scan_hex w (ds @ r) = Some (False, hex_number 0 ds, r)"
proof -
  from ne obtain a ds' where ds: "ds = a # ds'" by (cases ds) auto
  from x ds have a: "isxdigit a" by simp
  note na = xdigit_not [OF a]
  have sg: "skip_sign w (dropWhile isspace (ds @ r)) = (False, ds @ r, w)"
    using na by (simp add: skip_sign_def ds)
  have px: "skip_0x w (ds @ r) = (False, ds @ r, w)"
  proof (cases ds')
    case (Cons b ds'')
    with x ds have "isxdigit b" by simp
    from xdigit_not [OF this] show ?thesis by (simp add: skip_0x_def ds Cons)
  next
    case Nil
    with stop le ds show ?thesis
      by (cases r) (auto simp: skip_0x_def)
  qed
  have "takeWhile isxdigit (take (w - length ds) r) = []"
    using stop le by (cases r; cases "w - length ds") auto
  then have t: "takeWhile isxdigit (take w (ds @ r)) = ds"
    using x le by (simp add: takeWhile_append2 list_all_iff)
  show ?thesis
    unfolding scan_hex_def
    using ne by (simp only: prod.case sg px t Let_def) simp
qed

lemma scan_hex_digits:
  assumes "list_all isxdigit ds" and "length ds = w" and "2 \<le> w"
  shows "scan_hex w (ds @ rest) = Some (False, hex_number 0 ds, rest)"
  using assms by (intro scan_hex_run) auto

text \<open>White space before a field is skipped.\<close>

lemma scan_hex_space:
  "list_all isspace ws \<Longrightarrow> scan_hex w (ws @ s) = scan_hex w s"
  by (simp add: scan_hex_def dropWhile_append2 list_all_iff)

text \<open>
  A conversion fails when, after white space, the input is at its end or goes on with
  a character that is neither a sign nor a digit.
\<close>

lemma scan_hex_None:
  assumes "case dropWhile isspace s of [] \<Rightarrow> True
           | ch # r \<Rightarrow> \<not> isxdigit ch \<and> ch \<noteq> CHR ''-'' \<and> ch \<noteq> CHR ''+''"
  shows "scan_hex w s = None"
proof (cases "dropWhile isspace s")
  case Nil
  then show ?thesis
    unfolding scan_hex_def
    by (simp add: skip_sign_def skip_0x_def del: dropWhile_eq_Nil_conv)
next
  case (Cons ch r)
  with assms have n: "\<not> isxdigit ch" "ch \<noteq> CHR ''-''" "ch \<noteq> CHR ''+''" by simp_all
  have z: "ch \<noteq> CHR ''0''"
    using n(1) by (auto simp: isxdigit_def hex_value_def)
  have sg: "skip_sign w (ch # r) = (False, ch # r, w)"
    using n by (simp add: skip_sign_def)
  have px: "skip_0x w (ch # r) = (False, ch # r, w)"
    using z by (simp add: skip_0x_def split: list.splits)
  have "takeWhile isxdigit (take w (ch # r)) = []"
    using n(1) by (cases w) auto
  then show ?thesis
    by (simp add: scan_hex_def Cons sg px)
qed

lemma list8: "length xs = 8 \<Longrightarrow> \<exists>a b c d e f g h. xs = [a, b, c, d, e, f, g, h]"
  by (auto simp: length_Suc_conv eval_nat_numeral)

lemma list4: "length xs = 4 \<Longrightarrow> \<exists>a b c d. xs = [a, b, c, d]"
  by (auto simp: length_Suc_conv eval_nat_numeral)

lemma be32_hex_pairs:
  assumes "length g = 8"
  shows "be32 (of_nat (hex_number 0 g)) @ hex_pairs r = hex_pairs (g @ r)"
proof -
  from list8 [OF assms] obtain a b c d e f k h where g: "g = [a, b, c, d, e, f, k, h]"
    by blast
  note dv = digit_value_less
  note d = digits32 [OF dv [of a] dv [of b] dv [of c] dv [of d] dv [of e] dv [of f] dv [of k]
      dv [of h]]
  have n: "hex_number 0 g = 16 * (16 * (16 * (16 * (16 * (16 * (16 * digit_value a
      + digit_value b) + digit_value c) + digit_value d) + digit_value e) + digit_value f)
      + digit_value k) + digit_value h"
    by (simp add: g)
  show ?thesis
    unfolding n be32_of_nat [OF d(1)] d(2-5) by (simp add: g)
qed

lemma be16_hex_pairs:
  assumes "length g = 4"
  shows "be16 (of_nat (hex_number 0 g)) @ hex_pairs r = hex_pairs (g @ r)"
proof -
  from list4 [OF assms] obtain a b c d where g: "g = [a, b, c, d]"
    by blast
  note dv = digit_value_less
  note d = digits16 [OF dv [of a] dv [of b] dv [of c] dv [of d]]
  have n: "hex_number 0 g = 16 * (16 * (16 * digit_value a + digit_value b) + digit_value c)
      + digit_value d"
    by (simp add: g)
  show ?thesis
    unfolding n be16_of_nat [OF d(1)] d(2-3) by (simp add: g)
qed

lemma filter_xdigits:
  "list_all isxdigit g \<Longrightarrow> filter (\<lambda>ch. ch \<noteq> CHR ''-'') g = g"
  by (induction g) (auto dest: xdigit_not)

lemma match_char_Some: "match_char ch s = Some r \<longleftrightarrow> s = ch # r"
  by (auto simp: match_char_def split: list.splits)

lemma canonical_uuid_groups:
  assumes "canonical_uuid s"
  shows "\<exists>g0 g1 g2 g3 g4a g4b.
           s = g0 @ CHR ''-'' # g1 @ CHR ''-'' # g2 @ CHR ''-'' # g3 @ CHR ''-'' # g4a @ g4b
         \<and> length g0 = 8 \<and> length g1 = 4 \<and> length g2 = 4 \<and> length g3 = 4
         \<and> length g4a = 8 \<and> length g4b = 4
         \<and> list_all isxdigit g0 \<and> list_all isxdigit g1 \<and> list_all isxdigit g2
         \<and> list_all isxdigit g3 \<and> list_all isxdigit g4a \<and> list_all isxdigit g4b"
proof -
  from assms obtain g0 r0 g1 r1 g2 r2 g3 r3 g4 where
    h0: "hex_group 8 s = Some (g0, CHR ''-'' # r0)" and
    h1: "hex_group 4 r0 = Some (g1, CHR ''-'' # r1)" and
    h2: "hex_group 4 r1 = Some (g2, CHR ''-'' # r2)" and
    h3: "hex_group 4 r2 = Some (g3, CHR ''-'' # r3)" and
    h4: "hex_group 12 r3 = Some (g4, [])"
    by (auto simp: canonical_uuid_def bind_eq_Some_conv match_char_Some
        split: option.splits list.splits)
  note f = hex_group_Some [OF h0] hex_group_Some [OF h1] hex_group_Some [OF h2]
    hex_group_Some [OF h3] hex_group_Some [OF h4]
  have g4: "g4 = take 8 g4 @ drop 8 g4" by simp
  have l4: "length (take 8 g4) = 8" "length (drop 8 g4) = 4" using f(5) by simp_all
  have x4: "list_all isxdigit (take 8 g4)" "list_all isxdigit (drop 8 g4)"
    using f(5) by (auto simp: list_all_iff dest: in_set_takeD in_set_dropD)
  have "s = g0 @ CHR ''-'' # g1 @ CHR ''-'' # g2 @ CHR ''-'' # g3 @ CHR ''-'' #
            take 8 g4 @ drop 8 g4"
    using f by simp
  with f l4 x4 show ?thesis by blast
qed

text \<open>A directive returns a suffix of its input, so it adds no hyphen.\<close>

lemma count_drop: "count_list (drop n xs) x \<le> count_list xs x"
  by (induction xs arbitrary: n) (auto simp: drop_Cons split: nat.splits intro: le_SucI)

lemma count_dropWhile: "count_list (dropWhile P xs) x \<le> count_list xs x"
  by (induction xs) (auto intro: le_SucI)

lemma skip_sign_count:
  "skip_sign w s = (neg, s2, w2) \<Longrightarrow> count_list s2 x \<le> count_list s x"
  by (auto simp: skip_sign_def split: list.splits if_splits intro: le_SucI)

lemma skip_0x_count:
  "skip_0x w s = (pre, s3, w3) \<Longrightarrow> count_list s3 x \<le> count_list s x"
  by (auto simp: skip_0x_def split: list.splits if_splits intro: le_SucI)

lemma scan_hex_count:
  assumes "scan_hex w s = Some (n, v, r)"
  shows "count_list r x \<le> count_list s x"
proof -
  obtain neg s2 w2 where a: "skip_sign w (dropWhile isspace s) = (neg, s2, w2)"
    by (cases "skip_sign w (dropWhile isspace s)") auto
  obtain pre s3 w3 where b: "skip_0x w2 s2 = (pre, s3, w3)"
    by (cases "skip_0x w2 s2") auto
  from assms a b obtain k where r: "r = drop k s3"
    by (auto simp: scan_hex_def Let_def split: if_splits)
  have "count_list r x \<le> count_list s3 x" unfolding r by (rule count_drop)
  also have "\<dots> \<le> count_list s2 x" by (rule skip_0x_count [OF b])
  also have "\<dots> \<le> count_list (dropWhile isspace s) x" by (rule skip_sign_count [OF a])
  also have "\<dots> \<le> count_list s x" by (rule count_dropWhile)
  finally show ?thesis .
qed

lemma sscanf_uuid_hyphens:
  assumes "sscanf_uuid s = Some d"
  shows "4 \<le> count_list s (CHR ''-'')"
proof -
  from assms obtain n0 v0 r0 n1 v1 r1 n2 v2 r2 n3 v3 r3 where
    a: "scan_hex 8 s = Some (n0, v0, CHR ''-'' # r0)"
       "scan_hex 4 r0 = Some (n1, v1, CHR ''-'' # r1)"
       "scan_hex 4 r1 = Some (n2, v2, CHR ''-'' # r2)"
       "scan_hex 4 r2 = Some (n3, v3, CHR ''-'' # r3)"
    by (auto simp: sscanf_uuid_def bind_eq_Some_conv match_char_Some)
  from a [THEN scan_hex_count, of "CHR ''-''"] show ?thesis by simp
qed

lemma bt_string2uuid_length:
  "bt_string2uuid s = (0, Some v) \<Longrightarrow> length v = 16"
  by (auto simp: bt_string2uuid_def be32_def be16_def split: option.splits)

text \<open>
  C8, as the claim states it, fails: the string below is the canonical UUID of the
  Object Push service followed by two more characters.  It is not of the canonical
  format, yet \<open>bt_string2uuid\<close> returns 0 and the 16 bytes of the UUID, since
  \<open>sscanf\<close> stops reading after the sixth field.
\<close>

theorem trailing_characters_accepted:
  "\<not> canonical_uuid ''00001105-0000-1000-8000-00805f9b34fbzz''
   \<and> bt_string2uuid ''00001105-0000-1000-8000-00805f9b34fbzz'' =
       (0, Some [0, 0, 0x11, 5, 0, 0, 0x10, 0, 0x80, 0, 0, 0x80, 0x5f, 0x9b, 0x34, 0xfb])"
proof -
  have "\<not> canonical_uuid ''00001105-0000-1000-8000-00805f9b34fbzz''"
    by (simp add: canonical_uuid_def match_char_def isxdigit_def hex_value_def
        eval_nat_numeral)
  moreover have "bt_string2uuid ''00001105-0000-1000-8000-00805f9b34fbzz'' =
       (0, Some [0, 0, 0x11, 5, 0, 0, 0x10, 0, 0x80, 0, 0, 0x80, 0x5f, 0x9b, 0x34, 0xfb])"
    by (simp add: bt_string2uuid_def sscanf_uuid_def scan_hex_def skip_sign_def skip_0x_def
        match_char_def isspace_def isxdigit_def hex_value_def digit_value_def store32_def
        store16_def be32_def be16_def Let_def)
  ultimately show ?thesis by simp
qed

text \<open>Short groups are accepted too: the field widths are upper bounds.\<close>

lemma short_groups_accepted:
  "bt_string2uuid ''1105-0-1000-8000-00805f9b34fb'' =
       (0, Some [0, 0, 0x11, 5, 0, 0, 0x10, 0, 0x80, 0, 0, 0x80, 0x5f, 0x9b, 0x34, 0xfb])"
  by (simp add: bt_string2uuid_def sscanf_uuid_def scan_hex_def skip_sign_def skip_0x_def
      match_char_def isspace_def isxdigit_def hex_value_def digit_value_def store32_def
      store16_def be32_def be16_def Let_def)

text \<open>
  So are a sign and a \<open>0x\<close> prefix on a group and white space before a group; a
  prefix with no digit behind it converts as 0.
\<close>

lemma signs_and_prefixes_accepted:
  "bt_string2uuid ''+1-0x2-+3-4-0X5 6'' =
       (0, Some [0, 0, 0, 1, 0, 2, 0, 3, 0, 4, 0, 0, 0, 5, 0, 6])"
  by (simp add: bt_string2uuid_def sscanf_uuid_def scan_hex_def skip_sign_def skip_0x_def
      match_char_def isspace_def isxdigit_def hex_value_def digit_value_def store32_def
      store16_def be32_def be16_def Let_def)

lemma bare_prefix_accepted:
  "bt_string2uuid ''0x-0-0-0-0 0'' = (0, Some [0, 0, 0, 0, 0, 0, 0, 0, 0, 0, 0, 0, 0, 0, 0, 0])"
  by (simp add: bt_string2uuid_def sscanf_uuid_def scan_hex_def skip_sign_def skip_0x_def
      match_char_def isspace_def isxdigit_def hex_value_def digit_value_def store32_def
      store16_def be32_def be16_def Let_def)

text \<open>
  C8, amended.  \<open>bt_string2uuid\<close> accepts every string of the canonical format of
  8-4-4-4-12 hexadecimal digits, also when white space stands before it and when any
  characters follow it: it returns 0 and produces the 16 bytes of the UUID in network
  order.  Its only other result is \<open>-EINVAL\<close>, which it returns exactly when \<open>sscanf\<close>
  converts fewer than six fields.  That is the case for every string with fewer than
  four hyphens, and for every string that, after leading white space, is at its end
  or goes on with a character that is neither a hexadecimal digit nor a sign.  It
  does not reject every string of another format.
\<close>

theorem canonical_uuid_accepted:
  "(canonical_uuid c \<and> list_all isspace ws \<longrightarrow>
      bt_string2uuid (ws @ c @ t) = (0, Some (uuid128_of c)) \<and> length (uuid128_of c) = 16)
   \<and> (bt_string2uuid s = (- EINVAL, None) \<longleftrightarrow> sscanf_uuid s = None)
   \<and> (count_list s (CHR ''-'') < 4 \<longrightarrow> bt_string2uuid s = (- EINVAL, None))
   \<and> ((case dropWhile isspace s of [] \<Rightarrow> True
        | ch # r \<Rightarrow> \<not> isxdigit ch \<and> ch \<noteq> CHR ''-'' \<and> ch \<noteq> CHR ''+'') \<longrightarrow>
        bt_string2uuid s = (- EINVAL, None))
   \<and> (bt_string2uuid s = (- EINVAL, None)
        \<or> (\<exists>v. bt_string2uuid s = (0, Some v) \<and> length v = 16))"
proof (intro conjI impI)
  assume "canonical_uuid c \<and> list_all isspace ws"
  then have can: "canonical_uuid c" and sp: "list_all isspace ws" by simp_all
  from canonical_uuid_groups [OF can] obtain g0 g1 g2 g3 g4a g4b where
    s: "c = g0 @ CHR ''-'' # g1 @ CHR ''-'' # g2 @ CHR ''-'' # g3 @ CHR ''-'' # g4a @ g4b" and
    l: "length g0 = 8" "length g1 = 4" "length g2 = 4" "length g3 = 4"
       "length g4a = 8" "length g4b = 4" and
    x: "list_all isxdigit g0" "list_all isxdigit g1" "list_all isxdigit g2"
       "list_all isxdigit g3" "list_all isxdigit g4a" "list_all isxdigit g4b"
    by blast
  have c0: "scan_hex 8 (ws @ g0 @ r) = Some (False, hex_number 0 g0, r)" for r
    unfolding scan_hex_space [OF sp] by (rule scan_hex_digits [OF x(1) l(1)]) simp
  have c1: "scan_hex 4 (g1 @ r) = Some (False, hex_number 0 g1, r)" for r
    by (rule scan_hex_digits [OF x(2) l(2)]) simp
  have c2: "scan_hex 4 (g2 @ r) = Some (False, hex_number 0 g2, r)" for r
    by (rule scan_hex_digits [OF x(3) l(3)]) simp
  have c3: "scan_hex 4 (g3 @ r) = Some (False, hex_number 0 g3, r)" for r
    by (rule scan_hex_digits [OF x(4) l(4)]) simp
  have c4: "scan_hex 8 (g4a @ r) = Some (False, hex_number 0 g4a, r)" for r
    by (rule scan_hex_digits [OF x(5) l(5)]) simp
  have c5: "scan_hex 4 (g4b @ r) = Some (False, hex_number 0 g4b, r)" for r
    by (rule scan_hex_digits [OF x(6) l(6)]) simp
  have sc: "sscanf_uuid (ws @ c @ t) =
      Some (of_nat (hex_number 0 g0), of_nat (hex_number 0 g1), of_nat (hex_number 0 g2),
            of_nat (hex_number 0 g3), of_nat (hex_number 0 g4a), of_nat (hex_number 0 g4b))"
    unfolding s sscanf_uuid_def
    by (simp add: c0 c1 c2 c3 c4 c5 match_char_def store32_def store16_def)
  have u: "uuid128_of c = hex_pairs (g0 @ g1 @ g2 @ g3 @ g4a @ g4b @ [])"
    unfolding s uuid128_of_def using x by (simp add: filter_xdigits)
  have b: "be32 (of_nat (hex_number 0 g0)) @ be16 (of_nat (hex_number 0 g1)) @
           be16 (of_nat (hex_number 0 g2)) @ be16 (of_nat (hex_number 0 g3)) @
           be32 (of_nat (hex_number 0 g4a)) @ be16 (of_nat (hex_number 0 g4b)) @ hex_pairs []
         = hex_pairs (g0 @ g1 @ g2 @ g3 @ g4a @ g4b @ [])"
    by (simp only: be16_hex_pairs [OF l(6)] be32_hex_pairs [OF l(5)] be16_hex_pairs [OF l(4)]
        be16_hex_pairs [OF l(3)] be16_hex_pairs [OF l(2)] be32_hex_pairs [OF l(1)])
  have len: "length (be32 (of_nat (hex_number 0 g0)) @ be16 (of_nat (hex_number 0 g1)) @
           be16 (of_nat (hex_number 0 g2)) @ be16 (of_nat (hex_number 0 g3)) @
           be32 (of_nat (hex_number 0 g4a)) @ be16 (of_nat (hex_number 0 g4b)) @ hex_pairs [])
         = 16"
    by (simp add: be32_def be16_def)
  from sc u b len
  show "bt_string2uuid (ws @ c @ t) = (0, Some (uuid128_of c))"
    and "length (uuid128_of c) = 16"
    by (simp_all add: bt_string2uuid_def)
next
  show "bt_string2uuid s = (- EINVAL, None) \<longleftrightarrow> sscanf_uuid s = None"
    by (cases "sscanf_uuid s") (auto simp: bt_string2uuid_def EINVAL_def)
next
  assume "count_list s (CHR ''-'') < 4"
  with sscanf_uuid_hyphens [of s] have "sscanf_uuid s = None"
    by (cases "sscanf_uuid s") auto
  then show "bt_string2uuid s = (- EINVAL, None)"
    by (simp add: bt_string2uuid_def)
next
  assume "case dropWhile isspace s of [] \<Rightarrow> True
        | ch # r \<Rightarrow> \<not> isxdigit ch \<and> ch \<noteq> CHR ''-'' \<and> ch \<noteq> CHR ''+''"
  from scan_hex_None [OF this] have "sscanf_uuid s = None"
    by (simp add: sscanf_uuid_def)
  then show "bt_string2uuid s = (- EINVAL, None)"
    by (simp add: bt_string2uuid_def)
next
  show "bt_string2uuid s = (- EINVAL, None)
        \<or> (\<exists>v. bt_string2uuid s = (0, Some v) \<and> length v = 16)"
    by (cases "sscanf_uuid s") (auto simp: bt_string2uuid_def be32_def be16_def)
qed

theorem canonical_uuid_accepted_witness:
  "canonical_uuid ''00001105-0000-1000-8000-00805f9b34fb''
   \<and> list_all isspace ''  ''
   \<and> bt_string2uuid (''  '' @ ''00001105-0000-1000-8000-00805f9b34fb'' @ ''zz'') =
       (0, Some [0, 0, 0x11, 5, 0, 0, 0x10, 0, 0x80, 0, 0, 0x80, 0x5f, 0x9b, 0x34, 0xfb])
   \<and> count_list ''00001105'' (CHR ''-'') < 4
   \<and> bt_string2uuid ''00001105'' = (- EINVAL, None)
   \<and> sscanf_uuid ''00001105'' = None
   \<and> bt_string2uuid ''zzzzzzzz-zzzz-zzzz-zzzz-zzzzzzzzzzzz'' = (- EINVAL, None)"
proof -
  have c: "canonical_uuid ''00001105-0000-1000-8000-00805f9b34fb''"
    by (simp add: canonical_uuid_def match_char_def isxdigit_def hex_value_def
        eval_nat_numeral)
  have w: "list_all isspace ''  ''"
    by (simp add: isspace_def)
  have v: "uuid128_of ''00001105-0000-1000-8000-00805f9b34fb'' =
       [0, 0, 0x11, 5, 0, 0, 0x10, 0, 0x80, 0, 0, 0x80, 0x5f, 0x9b, 0x34, 0xfb]"
    by (simp add: uuid128_of_def digit_value_def hex_value_def)
  have h: "count_list ''00001105'' (CHR ''-'') < 4"
    by simp
  have z: "case dropWhile isspace ''zzzzzzzz-zzzz-zzzz-zzzz-zzzzzzzzzzzz'' of [] \<Rightarrow> True
        | ch # r \<Rightarrow> \<not> isxdigit ch \<and> ch \<noteq> CHR ''-'' \<and> ch \<noteq> CHR ''+''"
    by (simp add: isspace_def isxdigit_def hex_value_def)
  note t1 = canonical_uuid_accepted [where c = "''00001105-0000-1000-8000-00805f9b34fb''"
      and ws = "''  ''" and t = "''zz''" and s = "''00001105''"]
  note t2 = canonical_uuid_accepted [where c = "[]" and ws = "[]" and t = "[]"
      and s = "''zzzzzzzz-zzzz-zzzz-zzzz-zzzzzzzzzzzz''"]
  from t1 c w v h have
    "bt_string2uuid (''  '' @ ''00001105-0000-1000-8000-00805f9b34fb'' @ ''zz'') =
       (0, Some [0, 0, 0x11, 5, 0, 0, 0x10, 0, 0x80, 0, 0, 0x80, 0x5f, 0x9b, 0x34, 0xfb])"
    and r2: "bt_string2uuid ''00001105'' = (- EINVAL, None)"
    by simp_all
  moreover from t1 r2 have "sscanf_uuid ''00001105'' = None"
    by blast
  moreover from t2 z
  have "bt_string2uuid ''zzzzzzzz-zzzz-zzzz-zzzz-zzzzzzzzzzzz'' = (- EINVAL, None)"
    by blast
  ultimately show ?thesis using c w h r2 by simp
qed

subsection \<open>Failures of the connection chain\<close>

lemmas bt_defs = bt_emit_def bt_modify_def report_def pending_req_finalize_def
  bt_session_destroy_def sdp_failed_def reply_failed_def bt_quiet_def bt_world0_def

text \<open>The run up to the SDP search, evaluated.\<close>

lemma searching_eval:
  "searching = Some
     \<lparr>bt_heap = (\<lambda>a. None)(1 \<mapsto>
        \<lparr>bt_id = 1, bt_src = ''00:00:00:00:00:00'', bt_dst = ''AA:BB:CC:DD:EE:FF'',
         bt_port = 0, bt_conn_system = True, bt_sdp = Some 50, bt_io = Some 60,
         bt_pending_calls = [], bt_adapter = Some ''/org/bluez/hci0'',
         bt_service = Some ''00001105-0000-1000-8000-00805f9b34fb'', bt_func = Some 3,
         bt_user_data = 0\<rparr>),
      bt_brk = 2, bt_sessions = [1], bt_last_id = 1,
      bt_trace =
        [Bt_method_call ''/'' ''org.bluez.Manager'' ''DefaultAdapter'' (Some 100),
         Bt_pending_call_unref 100,
         Bt_method_call ''/org/bluez/hci0'' ''org.bluez.Adapter'' ''RequestSession'' (Some 101),
         Bt_pending_call_unref 101,
         Bt_sdp_connect ''00:00:00:00:00:00'' ''AA:BB:CC:DD:EE:FF'' (Some 50),
         Bt_io_add_watch 60 Service_callback,
         Bt_sdp_search 50 [0, 0, 0x11, 5, 0, 0, 0x10, 0, 0x80, 0, 0, 0x80, 0x5f, 0x9b, 0x34, 0xfb],
         Bt_io_add_watch 60 Process_callback]\<rparr>"
proof -
  have u: "bt_string2uuid ''00001105-0000-1000-8000-00805f9b34fb'' =
       (0, Some [0, 0, 0x11, 5, 0, 0, 0x10, 0, 0x80, 0, 0, 0x80, 0x5f, 0x9b, 0x34, 0xfb])"
    by (simp add: bt_string2uuid_def sscanf_uuid_def scan_hex_def skip_sign_def skip_0x_def
        match_char_def isspace_def isxdigit_def hex_value_def digit_value_def store32_def
        store16_def be32_def be16_def Let_def)
  show ?thesis
    by (simp add: searching_def bluetooth_connect_def manager_reply_def adapter_reply_def
        bt_session_connect_def service_callback_def u G_IO_OUT_def G_IO_NVAL_def G_IO_ERR_def
        bt_defs Let_def)
qed

text \<open>
  C6.  The code does not do what the claim says when the SDP socket fails while the
  search is out.  The connection has its adapter, its session lease, its SDP socket
  and the search request sent; the socket then reports a hang-up.
  \<open>process_callback\<close> returns FALSE (which only removes the watch) and does nothing
  else: the connection object is still in the registry, the caller's result function
  has not been called at all, the lease is not released and the socket is not shut
  down.  The sibling \<open>service_callback\<close> and \<open>search_callback\<close> report and destroy
  on their failures.
\<close>

theorem hangup_during_search_is_silent:
  "sdp_hangup = Some (False, [1], [], False)"
  by (simp add: sdp_hangup_def searching_eval process_callback_def G_IO_HUP_def G_IO_ERR_def
      G_IO_NVAL_def is_report_def)

text \<open>
  For comparison, the failures that the file does handle.  A search response with an
  error status: the socket is closed, the result function is called once with
  "Unable to find service record", the lease is released and the object is gone
  from the registry.
\<close>

lemma refused_search_reports_once:
  "sdp_refused = Some ([],
     [Bt_io_shutdown 60, Bt_io_unref 60,
      Bt_func 3 None (Some (GError (- 5) ''Unable to find service record'')) 0,
      Bt_method_call ''/org/bluez/hci0'' ''org.bluez.Adapter'' ''ReleaseSession'' None,
      Bt_connection_unref])"
  by (simp add: sdp_refused_def searching_eval search_callback_def SDP_SVC_SEARCH_ATTR_RSP_def
      bt_defs EIO_def)

text \<open>
  Teardown of a registered object: it leaves the registry and the heap, releases the
  lease if an adapter is known, finalises every pending call, shuts the socket down
  if there is one, and calls the result function no more.
\<close>

lemma fold_finalize:
  "fold (pending_req_finalize k) cs w = w\<lparr>bt_trace := bt_trace w @ finalize_events k cs\<rparr>"
  by (induction cs arbitrary: w)
     (simp_all add: finalize_events_def pending_req_finalize_def bt_emit_def)

lemma finalize_events_no_report: "filter is_report (finalize_events k cs) = []"
  by (induction cs) (simp_all add: finalize_events_def is_report_def)

lemma destroy_registered:
  assumes "bt_heap w s = Some se" and "s \<in> set (bt_sessions w)"
  shows "\<exists>w'. bt_session_destroy k s w = Some w'
           \<and> bt_heap w' s = None
           \<and> bt_sessions w' = remove1 s (bt_sessions w)
           \<and> filter is_report (bt_trace w') = filter is_report (bt_trace w)
           \<and> (\<forall>a. bt_adapter se = Some a \<longrightarrow>
                 Bt_method_call a ''org.bluez.Adapter'' ''ReleaseSession'' None \<in> set (bt_trace w'))
           \<and> (\<forall>c\<in>set (bt_pending_calls se). Bt_pending_call_unref c \<in> set (bt_trace w'))
           \<and> (\<forall>io. bt_io se = Some io \<longrightarrow> Bt_io_shutdown io \<in> set (bt_trace w'))"
  using assms
  by (auto simp: bt_session_destroy_def Let_def fold_finalize bt_emit_def is_report_def
      finalize_events_no_report finalize_events_def split: option.splits)

text \<open>
  The label \<open>failed\<close> of \<open>manager_reply\<close> and \<open>adapter_reply\<close>, with a caller that
  does not come back into the transport: exactly one call of the result function,
  with the error, then the teardown.
\<close>

lemma reply_failed_reports_once:
  assumes live: "bt_heap w s = Some se" and reg: "s \<in> set (bt_sessions w)"
      and fn: "bt_func se = Some f" and quiet: "func_body k = (\<lambda>f io err d w. w)"
  shows "\<exists>w'. reply_failed k s msg w = Some w'
           \<and> bt_heap w' s = None
           \<and> bt_sessions w' = remove1 s (bt_sessions w)
           \<and> filter is_report (bt_trace w') = filter is_report (bt_trace w) @
                [Bt_func f (bt_io se) (Some (GError (- EINVAL) msg)) (bt_user_data se)]"
proof -
  let ?e = "Bt_func f (bt_io se) (Some (GError (- EINVAL) msg)) (bt_user_data se)"
  let ?w1 = "bt_emit ?e w"
  have r: "report k s (bt_io se) (Some (GError (- EINVAL) msg)) w = Some ?w1"
    using live fn quiet by (simp add: report_def)
  have l1: "bt_heap ?w1 s = Some se" and r1: "s \<in> set (bt_sessions ?w1)"
    using live reg by (simp_all add: bt_emit_def)
  from destroy_registered [OF l1 r1, of k] obtain w' where
    d: "bt_session_destroy k s ?w1 = Some w'" "bt_heap w' s = None"
       "bt_sessions w' = remove1 s (bt_sessions ?w1)"
       "filter is_report (bt_trace w') = filter is_report (bt_trace ?w1)"
    by blast
  have "reply_failed k s msg w = Some w'"
    using live r d(1) by (simp add: reply_failed_def)
  with d show ?thesis by (simp add: bt_emit_def is_report_def)
qed

end
